theory Spec2Isabelle
  imports Main "HOL-Library.Sublist"
begin

section \<open>String helpers used by the JavaScript sources\<close>

text \<open>
  Strings are lists of bytes (the UTF-8 encoding of a JavaScript string). Lower-casing of
  ASCII letters, which is all that applies to an HTTP header name:
\<close>

definition lower_char :: "char \<Rightarrow> char" where
  "lower_char c =
     (case map_of (zip ''ABCDEFGHIJKLMNOPQRSTUVWXYZ'' ''abcdefghijklmnopqrstuvwxyz'') c of
        Some l \<Rightarrow> l
      | None \<Rightarrow> c)"

definition ascii_toLowerCase :: "string \<Rightarrow> string" where
  "ascii_toLowerCase s = map lower_char s"

text \<open>\<open>s.includes(pat)\<close>: \<open>pat\<close> occurs in \<open>s\<close> as a contiguous substring.\<close>

fun str_includes :: "string \<Rightarrow> string \<Rightarrow> bool" where
  "str_includes [] pat = (pat = [])"
| "str_includes (c # cs) pat = (prefix pat (c # cs) \<or> str_includes cs pat)"

text \<open>
  \<open>s.replace(pat, rep)\<close> with a string pattern: only the first occurrence of \<open>pat\<close>,
  wherever it starts, is replaced.
\<close>

fun replace_first :: "string \<Rightarrow> string \<Rightarrow> string \<Rightarrow> string" where
  "replace_first pat rep [] = (if pat = [] then rep else [])"
| "replace_first pat rep (c # cs) =
     (if prefix pat (c # cs) then rep @ drop (length pat) (c # cs)
      else c # replace_first pat rep cs)"

text \<open>
  The number of characters of a string, as PostgreSQL counts them for the width of a
  \<open>VARCHAR\<close> column: the bytes that are not continuation bytes.
\<close>

definition char_length :: "string \<Rightarrow> nat" where
  "char_length s =
     length (filter (\<lambda>c. \<not> (0x80 \<le> (of_char c :: nat) \<and> (of_char c :: nat) \<le> 0xBF)) s)"

text \<open>Decimal rendering of a number in a template string.\<close>

fun decimal_digits :: "nat \<Rightarrow> nat \<Rightarrow> string" where
  "decimal_digits 0 n = []"
| "decimal_digits (Suc fuel) n =
     (if n < 10 then [char_of (48 + n)]
      else decimal_digits fuel (n div 10) @ [char_of (48 + n mod 10)])"

definition decimal :: "int \<Rightarrow> string" where
  "decimal i =
     (if i < 0 then ''-'' @ decimal_digits (Suc (nat (- i))) (nat (- i))
      else decimal_digits (Suc (nat i)) (nat i))"

text \<open>
  \<open>buf.toString('utf8')\<close>, given as the UTF-8 bytes of the resulting string: well-formed
  sequences are kept, and every maximal ill-formed part becomes U+FFFD (bytes EF BF BD). The
  decoder state is the number of continuation bytes still needed, the bounds for the next
  byte and the bytes of the sequence read so far.
\<close>

definition replacement :: string where
  "replacement = [CHR 0xEF, CHR 0xBF, CHR 0xBD]"

definition first_byte :: "char \<Rightarrow> string \<times> nat \<times> nat \<times> nat \<times> string" where
  "first_byte c =
     (let b = (of_char c :: nat) in
      if b \<le> 0x7F then ([c], 0, 0x80, 0xBF, [])
      else if 0xC2 \<le> b \<and> b \<le> 0xDF then ([], 1, 0x80, 0xBF, [c])
      else if 0xE0 \<le> b \<and> b \<le> 0xEF
        then ([], 2, (if b = 0xE0 then 0xA0 else 0x80), (if b = 0xED then 0x9F else 0xBF), [c])
      else if 0xF0 \<le> b \<and> b \<le> 0xF4
        then ([], 3, (if b = 0xF0 then 0x90 else 0x80), (if b = 0xF4 then 0x8F else 0xBF), [c])
      else (replacement, 0, 0x80, 0xBF, []))"

fun utf8_decode :: "nat \<Rightarrow> nat \<Rightarrow> nat \<Rightarrow> string \<Rightarrow> string \<Rightarrow> string" where
  "utf8_decode needed lower upper seen [] = (if needed = 0 then [] else replacement)"
| "utf8_decode needed lower upper seen (c # cs) =
     (if needed = 0
      then (case first_byte c of
              (out, needed', lower', upper', seen') \<Rightarrow>
                out @ utf8_decode needed' lower' upper' seen' cs)
      else if (of_char c :: nat) < lower \<or> upper < (of_char c :: nat)
      then (case first_byte c of
              (out, needed', lower', upper', seen') \<Rightarrow>
                replacement @ out @ utf8_decode needed' lower' upper' seen' cs)
      else if needed = 1 then seen @ [c] @ utf8_decode 0 0x80 0xBF [] cs
      else utf8_decode (needed - 1) 0x80 0xBF (seen @ [c]) cs)"

definition toString_utf8 :: "string \<Rightarrow> string" where
  "toString_utf8 bytes = utf8_decode 0 0x80 0xBF [] bytes"

section \<open>Secret-redacting logger (utils/logger.js)\<close>

text \<open>
  \<open>String.prototype.toLowerCase\<close> follows the Unicode tables; it is the parameter
  \<open>toLowerCase\<close> of the definitions below, which therefore hold for whatever it does to a
  key.
\<close>

datatype json =
    JNull
  | JBool bool
  | JNum int
  | JStr string
  | JArr "json list"
  | JObj "(string \<times> json) list"

definition SECRET_FIELDS :: "string list" where
  "SECRET_FIELDS =
     [''password'', ''password_hash'', ''api_key'', ''apiKey'', ''apikey'', ''authorization'',
      ''token'', ''jwt'', ''secret'', ''x-api-key'', ''razorpay_key_secret'',
      ''RAZORPAY_KEY_SECRET'', ''JWT_SECRET'']"

definition REDACTED :: json where
  "REDACTED = JStr ''[REDACTED]''"

definition isSecret :: "(string \<Rightarrow> string) \<Rightarrow> string \<Rightarrow> bool" where
  "isSecret toLowerCase key =
     list_ex (\<lambda>field. str_includes (toLowerCase key) (toLowerCase field)) SECRET_FIELDS"

text \<open>\<open>typeof value === 'object' && value !== null\<close>: arrays and plain objects.\<close>

fun is_object :: "json \<Rightarrow> bool" where
  "is_object (JArr _) = True"
| "is_object (JObj _) = True"
| "is_object _ = False"

text \<open>
  The entries of an object are a list of pairs. An assignment \<open>redacted[key] = ...\<close> with the
  key \<open>__proto__\<close> goes to the prototype setter and creates no entry, so such an entry of the
  input is absent from the result.
\<close>

fun redactSecrets :: "(string \<Rightarrow> string) \<Rightarrow> json \<Rightarrow> json" where
  "redactSecrets toLowerCase (JArr xs) = JArr (map (redactSecrets toLowerCase) xs)"
| "redactSecrets toLowerCase (JObj kvs) =
     JObj (map (\<lambda>(key, v).
             if isSecret toLowerCase key then (key, REDACTED)
             else if is_object v then (key, redactSecrets toLowerCase v)
             else (key, v))
           (filter (\<lambda>(key, v). key \<noteq> ''__proto__'') kvs))"
| "redactSecrets toLowerCase v = v"

text \<open>
  What the emitted record must satisfy: at every depth, a key that \<open>isSecret\<close> accepts
  carries the sentinel.
\<close>

fun redacted_ok :: "(string \<Rightarrow> string) \<Rightarrow> json \<Rightarrow> bool" where
  "redacted_ok toLowerCase (JArr xs) = list_all (redacted_ok toLowerCase) xs"
| "redacted_ok toLowerCase (JObj kvs) =
     list_all (\<lambda>(key, v). if isSecret toLowerCase key then v = REDACTED
                            else redacted_ok toLowerCase v) kvs"
| "redacted_ok toLowerCase v = True"

text \<open>
  Places in a value: a path of object keys and array indices, and the value found there.
  A path is plain when none of its keys is secret or \<open>__proto__\<close>.
\<close>

datatype step = Key string | Index nat

fun json_at :: "json \<Rightarrow> step list \<Rightarrow> json option" where
  "json_at v [] = Some v"
| "json_at (JObj kvs) (Key k # p) =
     (case map_of kvs k of None \<Rightarrow> None | Some v \<Rightarrow> json_at v p)"
| "json_at (JArr xs) (Index i # p) = (if i < length xs then json_at (xs ! i) p else None)"
| "json_at v (s # p) = None"

fun plain_step :: "(string \<Rightarrow> string) \<Rightarrow> step \<Rightarrow> bool" where
  "plain_step toLowerCase (Key k) = (\<not> isSecret toLowerCase k \<and> k \<noteq> ''__proto__'')"
| "plain_step toLowerCase (Index i) = True"

definition plain_path :: "(string \<Rightarrow> string) \<Rightarrow> step list \<Rightarrow> bool" where
  "plain_path toLowerCase p = list_all (plain_step toLowerCase) p"

section \<open>Container engine adapter (services/containerManager.js)\<close>

text \<open>
  The Docker daemon is an oracle: each call answers with a value or with an error object
  carrying an optional \<open>statusCode\<close> and a \<open>message\<close>. Errors thrown by the adapter are
  \<open>Error\<close> objects, represented by their message.
\<close>

record docker_error =
  statusCode :: "nat option"
  message :: string

record container_info =
  Networks :: "(string \<times> string) list"

record docker =
  listNetworks :: "string \<Rightarrow> docker_error + nat"
  createNetwork :: "string \<Rightarrow> docker_error + unit"
  docker_createContainer :: "string \<Rightarrow> docker_error + string"
  inspect :: "string \<Rightarrow> docker_error + container_info"
  start :: "string \<Rightarrow> docker_error + unit"
  stop :: "string \<Rightarrow> nat \<Rightarrow> docker_error + unit"
  remove :: "string \<Rightarrow> bool \<Rightarrow> docker_error + unit"
  restart :: "string \<Rightarrow> nat \<Rightarrow> docker_error + unit"

type_synonym js_error = string

definition ensureNetwork :: "docker \<Rightarrow> string \<Rightarrow> docker_error + unit" where
  "ensureNetwork d network =
     (case listNetworks d network of
        Inl e \<Rightarrow> Inl e
      | Inr n \<Rightarrow> if n = 0 then createNetwork d network else Inr ())"

text \<open>
  \<open>createContainer\<close>: the two limit validators (utils/validation.js) parse floating-point
  numbers and are parameters here: they answer \<open>Some message\<close> when they throw. The container
  configuration record itself is not represented; the daemon answers by container name.
\<close>

definition createContainer ::
  "(string \<Rightarrow> js_error option) \<Rightarrow> (string \<Rightarrow> js_error option) \<Rightarrow> docker \<Rightarrow> string \<Rightarrow>
     string \<Rightarrow> string \<Rightarrow> string \<Rightarrow> js_error + string" where
  "createContainer validateCpuLimit validateMemoryLimit d network workspaceId cpuLimit memoryLimit =
     (case validateCpuLimit cpuLimit of
        Some e \<Rightarrow> Inl e
      | None \<Rightarrow>
     (case validateMemoryLimit memoryLimit of
        Some e \<Rightarrow> Inl e
      | None \<Rightarrow>
     (case ensureNetwork d network of
        Inl e \<Rightarrow> Inl (''Failed to create container: '' @ message e)
      | Inr _ \<Rightarrow>
     (case docker_createContainer d (''openclaw_workspace_'' @ workspaceId) of
        Inl e \<Rightarrow> Inl (''Failed to create container: '' @ message e)
      | Inr cid \<Rightarrow> Inr cid))))"

definition startContainer_catch :: "docker_error \<Rightarrow> js_error + bool" where
  "startContainer_catch e =
     (if statusCode e = Some 304 then Inr True
      else if statusCode e = Some 404 then Inl ''Container not found''
      else Inl (''Failed to start container: '' @ message e))"

definition startContainer :: "docker \<Rightarrow> string \<Rightarrow> js_error + bool" where
  "startContainer d containerId =
     (case inspect d containerId of
        Inl e \<Rightarrow> startContainer_catch e
      | Inr _ \<Rightarrow>
     (case start d containerId of
        Inl e \<Rightarrow> startContainer_catch e
      | Inr _ \<Rightarrow> Inr True))"

definition stopContainer :: "docker \<Rightarrow> string \<Rightarrow> nat \<Rightarrow> js_error + bool" where
  "stopContainer d containerId timeout =
     (case stop d containerId timeout of
        Inr _ \<Rightarrow> Inr True
      | Inl e \<Rightarrow>
          if statusCode e = Some 304 then Inr True
          else if statusCode e = Some 404 then Inl ''Container not found''
          else Inl (''Failed to stop container: '' @ message e))"

definition removeContainer :: "docker \<Rightarrow> string \<Rightarrow> bool \<Rightarrow> js_error + bool" where
  "removeContainer d containerId force =
     (case remove d containerId force of
        Inr _ \<Rightarrow> Inr True
      | Inl e \<Rightarrow>
          if statusCode e = Some 404 then Inr True
          else Inl (''Failed to remove container: '' @ message e))"

definition restartContainer :: "docker \<Rightarrow> string \<Rightarrow> js_error + bool" where
  "restartContainer d containerId =
     (case restart d containerId 30 of
        Inr _ \<Rightarrow> Inr True
      | Inl e \<Rightarrow>
          if statusCode e = Some 404 then Inl ''Container not found''
          else Inl (''Failed to restart container: '' @ message e))"

text \<open>
  \<open>getContainerIp\<close>: the address on the internal network, or \<open>null\<close> when the network is not
  attached or the inspection fails.
\<close>

definition getContainerIp :: "docker \<Rightarrow> string \<Rightarrow> string \<Rightarrow> string option" where
  "getContainerIp d network containerId =
     (case inspect d containerId of
        Inl e \<Rightarrow> None
      | Inr info \<Rightarrow> map_of (Networks info) network)"

section \<open>Persistent data (migrations, models/workspace.js, models/subscription.js)\<close>

text \<open>
  Tables are lists of rows; timestamps are integers (milliseconds since the epoch); a
  nullable column is an \<open>option\<close>. Requests are processed one after the other, each to
  completion.
\<close>

record workspace =
  ws_id :: string
  ws_user_id :: string
  ws_name :: string
  api_key :: string
  cpu_limit :: string
  memory_limit :: string
  container_id :: "string option"
  container_status :: string
  ws_created_at :: int
  ws_updated_at :: int
  last_started_at :: "int option"

record subscription =
  sub_id :: string
  sub_user_id :: string
  razorpay_subscription_id :: "string option"
  status :: string
  plan_id :: string
  current_period_start :: int
  current_period_end :: int
  cancelled_at :: "int option"
  sub_created_at :: int
  sub_updated_at :: int

text \<open>
  The fields of a webhook body that the handlers read; a field that the body lacks is
  \<open>None\<close> (\<open>undefined\<close>). \<open>current_start\<close> and \<open>current_end\<close> hold the number from which
  \<open>field * 1000\<close> is computed, and \<open>None\<close> when that product is \<open>NaN\<close>.
\<close>

record entity =
  entity_id :: "string option"
  entity_subscription_id :: "string option"
  notes_user_id :: "string option"
  current_start :: "int option"
  current_end :: "int option"

record payload_part =
  payment_entity :: "entity option"
  subscription_entity :: "entity option"

record webhook_payload =
  event :: "string option"
  payload :: "payload_part option"

record payment_event =
  pe_subscription_id :: "string option"
  event_type :: string
  razorpay_payment_id :: "string option"
  razorpay_event_id :: string
  pe_webhook_payload :: webhook_payload
  amount_cents :: "int option"
  currency :: string
  pe_created_at :: int

record database =
  workspaces :: "workspace list"
  subscriptions :: "subscription list"
  payment_events :: "payment_event list"

text \<open>
  The statements of the webhook handlers name columns and a state that the migrations under
  src/ do not declare: \<open>payment_events.razorpay_event_id\<close> (with the uniqueness that the spec
  and PAYMENT_IMPLEMENTATION.md give it), \<open>subscriptions.cancelled_at\<close>, and the state
  \<open>past_due\<close>, which \<open>check_subscription_status\<close> does not list. What the tables declare
  is therefore a parameter of every statement that depends on it.
\<close>

record schema =
  has_razorpay_event_id :: bool
  razorpay_event_id_unique :: bool
  has_cancelled_at :: bool
  status_allowed :: "string \<Rightarrow> bool"


text \<open>
  Modelled from the spec: the tables with the columns of the spec's data model
  (\<open>provider_event_id (unique)\<close>, \<open>cancelled_at\<close>, the state \<open>past_due\<close>), which are the ones
  that the statements of the handlers name.
\<close>

definition schema_handlers :: schema where
  "schema_handlers =
     \<lparr>has_razorpay_event_id = True,
      razorpay_event_id_unique = True,
      has_cancelled_at = True,
      status_allowed = (\<lambda>st. st \<in> set [''pending'', ''active'', ''past_due'', ''cancelled'',
                                         ''expired''])\<rparr>"

text \<open>JavaScript truthiness of a value that is a string, \<open>null\<close> or \<open>undefined\<close>.\<close>

fun truthy :: "string option \<Rightarrow> bool" where
  "truthy None = False"
| "truthy (Some s) = (s \<noteq> [])"

text \<open>\<open>a || b\<close> on such values.\<close>

definition js_or :: "string option \<Rightarrow> string option \<Rightarrow> string option" where
  "js_or a b = (if truthy a then a else b)"

subsection \<open>Workspace model\<close>

text \<open>
  \<open>workspaces.id\<close> has type \<open>UUID\<close>: a statement that compares it with a parameter which
  is not in the input syntax of that type raises. \<open>pg_uuid\<close> says whether a string is in that
  syntax. \<open>findById\<close> is called by the handlers only with an id that \<open>isOwner\<close> has accepted.
\<close>

definition ws_findById :: "database \<Rightarrow> string \<Rightarrow> workspace option" where
  "ws_findById db workspaceId = find (\<lambda>w. ws_id w = workspaceId) (workspaces db)"

definition findByApiKey :: "database \<Rightarrow> string \<Rightarrow> workspace option" where
  "findByApiKey db apiKey = find (\<lambda>w. api_key w = apiKey) (workspaces db)"

text \<open>
  \<open>ORDER BY created_at DESC\<close>; rows with equal timestamps keep their table order. An
  \<open>undefined\<close> parameter is sent as \<open>NULL\<close> and matches no row.
\<close>

definition ws_findByUserId :: "database \<Rightarrow> string option \<Rightarrow> workspace list" where
  "ws_findByUserId db userId =
     (case userId of
        None \<Rightarrow> []
      | Some u \<Rightarrow> sort_key (\<lambda>w. - ws_created_at w) (filter (\<lambda>w. ws_user_id w = u) (workspaces db)))"

definition countByUserId :: "database \<Rightarrow> string \<Rightarrow> nat" where
  "countByUserId db userId = length (filter (\<lambda>w. ws_user_id w = userId) (workspaces db))"

definition isOwner :: "(string \<Rightarrow> bool) \<Rightarrow> database \<Rightarrow> string \<Rightarrow> string \<Rightarrow> js_error + bool" where
  "isOwner pg_uuid db workspaceId userId =
     (if \<not> pg_uuid workspaceId then Inl ''invalid input syntax for type uuid''
      else Inr (list_ex (\<lambda>w. ws_id w = workspaceId \<and> ws_user_id w = userId) (workspaces db)))"

definition updateContainer ::
  "database \<Rightarrow> int \<Rightarrow> string \<Rightarrow> string \<Rightarrow> string \<Rightarrow> js_error + database" where
  "updateContainer db now workspaceId containerId st =
     (if char_length containerId > 100 then Inl ''value too long for type character varying(100)''
      else if \<not> list_ex (\<lambda>w. ws_id w = workspaceId) (workspaces db)
      then Inl ''Workspace not found''
      else Inr (db\<lparr>workspaces :=
             map (\<lambda>w. if ws_id w = workspaceId
                       then w\<lparr>container_id := Some containerId, container_status := st,
                              ws_updated_at := now\<rparr>
                       else w) (workspaces db)\<rparr>))"

definition updateStatus :: "database \<Rightarrow> int \<Rightarrow> string \<Rightarrow> string \<Rightarrow> js_error + database" where
  "updateStatus db now workspaceId st =
     (if \<not> list_ex (\<lambda>w. ws_id w = workspaceId) (workspaces db) then Inl ''Workspace not found''
      else Inr (db\<lparr>workspaces :=
             map (\<lambda>w. if ws_id w = workspaceId
                       then (if st = ''running''
                             then w\<lparr>container_status := st, ws_updated_at := now,
                                    last_started_at := Some now\<rparr>
                             else w\<lparr>container_status := st, ws_updated_at := now\<rparr>)
                       else w) (workspaces db)\<rparr>))"

text \<open>
  \<open>create\<close>: the generated id and API key are inputs (\<open>gen_random_uuid()\<close>,
  \<open>randomBytes(32)\<close>). A value wider than its column raises; the \<open>UNIQUE(user_id, name)\<close>
  constraint of the table raises the conflict.
\<close>

definition ws_create ::
  "database \<Rightarrow> int \<Rightarrow> string \<Rightarrow> string \<Rightarrow> string \<Rightarrow> string \<Rightarrow> string \<Rightarrow> string \<Rightarrow>
     js_error + (workspace \<times> database)" where
  "ws_create db now newId apiKey userId name cpuLimit memoryLimit =
     (if char_length name > 100 then Inl ''value too long for type character varying(100)''
      else if char_length apiKey > 64 then Inl ''value too long for type character varying(64)''
      else if char_length cpuLimit > 10 \<or> char_length memoryLimit > 10
      then Inl ''value too long for type character varying(10)''
      else if list_ex (\<lambda>w. ws_user_id w = userId \<and> ws_name w = name) (workspaces db)
      then Inl ''Workspace name already exists''
      else
        (let row = \<lparr>ws_id = newId, ws_user_id = userId, ws_name = name, api_key = apiKey,
                     cpu_limit = cpuLimit, memory_limit = memoryLimit, container_id = None,
                     container_status = ''stopped'', ws_created_at = now, ws_updated_at = now,
                     last_started_at = None\<rparr>
         in Inr (row, db\<lparr>workspaces := workspaces db @ [row]\<rparr>)))"

subsection \<open>Subscription model\<close>

definition findActiveByUserId :: "database \<Rightarrow> int \<Rightarrow> string \<Rightarrow> subscription option" where
  "findActiveByUserId db now userId =
     (case sort_key (\<lambda>s. - sub_created_at s)
             (filter (\<lambda>s. sub_user_id s = userId \<and> status s = ''active'' \<and>
                            current_period_end s > now) (subscriptions db)) of
        [] \<Rightarrow> None
      | s # _ \<Rightarrow> Some s)"

definition hasActive :: "database \<Rightarrow> int \<Rightarrow> string \<Rightarrow> bool" where
  "hasActive db now userId = (findActiveByUserId db now userId \<noteq> None)"

text \<open>\<open>findByUserId\<close> of the subscription model returns \<open>result.rows\<close>: an array of rows.\<close>

definition sub_findByUserId :: "database \<Rightarrow> string \<Rightarrow> subscription list" where
  "sub_findByUserId db userId =
     sort_key (\<lambda>s. - sub_created_at s) (filter (\<lambda>s. sub_user_id s = userId) (subscriptions db))"

section \<open>Workspace routes (routes/workspaces.js)\<close>

text \<open>
  The router runs \<open>requireAuth\<close> first; the functions below are the middleware chains after it
  has attached \<open>req.userId\<close>. A response is its status code and the text of its \<open>error\<close> or
  \<open>message\<close> field. \<open>Unanswered\<close> stands for a chain that sends nothing: the promise of an
  \<open>async\<close> middleware without a \<open>catch\<close> was rejected. Each chain also reports the calls it
  made to the container manager.
\<close>

datatype http_response = Response (status_code: nat) (response_text: string) | Unanswered

datatype manager_call =
    CreateContainer string
  | StartContainer string
  | StopContainer string
  | RemoveContainer string

text \<open>
  \<open>isUUID\<close> is the check of express-validator, \<open>pg_uuid\<close> the input syntax of the database
  type, \<open>JSON_stringify\<close> the built-in serialiser, and \<open>form_urlencode\<close> the rewriting of a
  serialised body into \<open>key=value\<close> pairs that express-http-proxy applies to form posts.
\<close>

record env =
  isUUID :: "string \<Rightarrow> bool"
  pg_uuid :: "string \<Rightarrow> bool"
  JSON_stringify :: "json \<Rightarrow> string"
  form_urlencode :: "string \<Rightarrow> string"
  validateCpuLimit :: "string \<Rightarrow> js_error option"
  validateMemoryLimit :: "string \<Rightarrow> js_error option"
  OPENCLAW_NETWORK :: string
  OPENCLAW_PORT :: string
  MAX_WORKSPACES_PER_USER :: nat
  DEFAULT_CPU_LIMIT :: "string option"
  DEFAULT_MEMORY_LIMIT :: "string option"

record ws_request =
  params_id :: string
  rate_limited :: bool

text \<open>
  \<open>checkOwnership\<close> is an \<open>async\<close> function used as a middleware as it is, not through
  \<open>asyncHandler\<close>: when its query raises, nothing is sent.
\<close>

definition checkOwnership ::
  "env \<Rightarrow> database \<Rightarrow> string \<Rightarrow> string \<Rightarrow> http_response option" where
  "checkOwnership ev db workspaceId userId =
     (case isOwner (pg_uuid ev) db workspaceId userId of
        Inl e \<Rightarrow> Some Unanswered
      | Inr owner \<Rightarrow> if \<not> owner then Some (Response 403 ''Access denied'') else None)"

definition requireSubscription :: "database \<Rightarrow> int \<Rightarrow> string \<Rightarrow> http_response option" where
  "requireSubscription db now userId =
     (if \<not> hasActive db now userId then Some (Response 403 ''Subscription required'') else None)"

definition containerRateLimiter :: "ws_request \<Rightarrow> http_response option" where
  "containerRateLimiter req =
     (if rate_limited req then Some (Response 429 ''Too many container operations'') else None)"

subsection \<open>POST /api/workspaces/:id/start\<close>

definition start_existing ::
  "docker \<Rightarrow> int \<Rightarrow> database \<Rightarrow> string \<Rightarrow> string \<Rightarrow> manager_call list \<Rightarrow>
     (js_error + string) \<times> database \<times> manager_call list" where
  "start_existing d now db workspaceId containerId calls =
     (case startContainer d containerId of
        Inl e \<Rightarrow> (Inl e, db, calls @ [StartContainer containerId])
      | Inr _ \<Rightarrow>
     (case updateStatus db now workspaceId ''running'' of
        Inl e \<Rightarrow> (Inl e, db, calls @ [StartContainer containerId])
      | Inr db' \<Rightarrow> (Inr containerId, db', calls @ [StartContainer containerId])))"

text \<open>The body of the handler's \<open>try\<close> block.\<close>

definition start_try ::
  "env \<Rightarrow> docker \<Rightarrow> int \<Rightarrow> database \<Rightarrow> workspace \<Rightarrow>
     (js_error + string) \<times> database \<times> manager_call list" where
  "start_try ev d now db ws =
     (case (if truthy (container_id ws) then container_id ws else None) of
        Some containerId \<Rightarrow> start_existing d now db (ws_id ws) containerId []
      | None \<Rightarrow>
     (case updateStatus db now (ws_id ws) ''creating'' of
        Inl e \<Rightarrow> (Inl e, db, [])
      | Inr db1 \<Rightarrow>
     (case createContainer (validateCpuLimit ev) (validateMemoryLimit ev) d (OPENCLAW_NETWORK ev)
             (ws_id ws) (cpu_limit ws) (memory_limit ws) of
        Inl e \<Rightarrow> (Inl e, db1, [CreateContainer (ws_id ws)])
      | Inr containerId \<Rightarrow>
     (case updateContainer db1 now (ws_id ws) containerId ''stopped'' of
        Inl e \<Rightarrow> (Inl e, db1, [CreateContainer (ws_id ws)])
      | Inr db2 \<Rightarrow>
          start_existing d now db2 (ws_id ws) containerId [CreateContainer (ws_id ws)]))))"

definition start_handler ::
  "env \<Rightarrow> docker \<Rightarrow> int \<Rightarrow> database \<Rightarrow> ws_request \<Rightarrow>
     http_response \<times> database \<times> manager_call list" where
  "start_handler ev d now db req =
     (if \<not> isUUID ev (params_id req) then (Response 400 ''Validation failed'', db, [])
      else
     (case ws_findById db (params_id req) of
        None \<Rightarrow> (Response 404 ''Not found'', db, [])
      | Some ws \<Rightarrow>
          if container_status ws = ''running''
          then (Response 200 ''Workspace already running'', db, [])
          else
            (case start_try ev d now db ws of
               (Inr containerId, db', calls) \<Rightarrow>
                 (Response 200 ''Workspace started successfully'', db', calls)
             | (Inl e, db', calls) \<Rightarrow>
                 (case updateStatus db' now (ws_id ws) ''error'' of
                    Inl e' \<Rightarrow> (Response 500 e', db', calls)
                  | Inr db'' \<Rightarrow> (Response 500 e, db'', calls)))))"

definition start_route ::
  "env \<Rightarrow> docker \<Rightarrow> int \<Rightarrow> database \<Rightarrow> string \<Rightarrow> ws_request \<Rightarrow>
     http_response \<times> database \<times> manager_call list" where
  "start_route ev d now db userId req =
     (case checkOwnership ev db (params_id req) userId of
        Some r \<Rightarrow> (r, db, [])
      | None \<Rightarrow>
     (case requireSubscription db now userId of
        Some r \<Rightarrow> (r, db, [])
      | None \<Rightarrow>
     (case containerRateLimiter req of
        Some r \<Rightarrow> (r, db, [])
      | None \<Rightarrow> start_handler ev d now db req)))"

subsection \<open>POST /api/workspaces/:id/stop\<close>

definition stop_handler ::
  "env \<Rightarrow> docker \<Rightarrow> int \<Rightarrow> database \<Rightarrow> ws_request \<Rightarrow>
     http_response \<times> database \<times> manager_call list" where
  "stop_handler ev d now db req =
     (if \<not> isUUID ev (params_id req) then (Response 400 ''Validation failed'', db, [])
      else
     (case ws_findById db (params_id req) of
        None \<Rightarrow> (Response 404 ''Not found'', db, [])
      | Some ws \<Rightarrow>
     (case (if truthy (container_id ws) then container_id ws else None) of
        None \<Rightarrow> (Response 400 ''Invalid operation'', db, [])
      | Some containerId \<Rightarrow>
          if container_status ws = ''stopped''
          then (Response 200 ''Workspace already stopped'', db, [])
          else
            (case stopContainer d containerId 30 of
               Inl e \<Rightarrow> (Response 500 e, db, [StopContainer containerId])
             | Inr _ \<Rightarrow>
            (case updateStatus db now (ws_id ws) ''stopped'' of
               Inl e \<Rightarrow> (Response 500 e, db, [StopContainer containerId])
             | Inr db' \<Rightarrow>
                 (Response 200 ''Workspace stopped successfully'', db',
                  [StopContainer containerId]))))))"

definition stop_route ::
  "env \<Rightarrow> docker \<Rightarrow> int \<Rightarrow> database \<Rightarrow> string \<Rightarrow> ws_request \<Rightarrow>
     http_response \<times> database \<times> manager_call list" where
  "stop_route ev d now db userId req =
     (case checkOwnership ev db (params_id req) userId of
        Some r \<Rightarrow> (r, db, [])
      | None \<Rightarrow>
     (case requireSubscription db now userId of
        Some r \<Rightarrow> (r, db, [])
      | None \<Rightarrow>
     (case containerRateLimiter req of
        Some r \<Rightarrow> (r, db, [])
      | None \<Rightarrow> stop_handler ev d now db req)))"

subsection \<open>POST /api/workspaces\<close>

text \<open>
  The request body after the express-validator chain: \<open>body_valid\<close> says whether the chain
  recorded no error. \<open>new_id\<close> and \<open>new_api_key\<close> are the values the insert generates.
\<close>

record create_request =
  body_name :: string
  body_cpuLimit :: "string option"
  body_memoryLimit :: "string option"
  body_valid :: bool
  new_id :: string
  new_api_key :: string

definition or_default :: "string option \<Rightarrow> string option \<Rightarrow> string \<Rightarrow> string" where
  "or_default a b c = (case js_or a b of Some s \<Rightarrow> if s \<noteq> [] then s else c | None \<Rightarrow> c)"

definition create_route ::
  "env \<Rightarrow> int \<Rightarrow> database \<Rightarrow> string \<Rightarrow> create_request \<Rightarrow>
     http_response \<times> database \<times> manager_call list" where
  "create_route ev now db userId req =
     (case requireSubscription db now userId of
        Some r \<Rightarrow> (r, db, [])
      | None \<Rightarrow>
          if \<not> body_valid req then (Response 400 ''Validation failed'', db, [])
          else if countByUserId db userId \<ge> MAX_WORKSPACES_PER_USER ev
          then (Response 400 ''Limit reached'', db, [])
          else
            (case ws_create db now (new_id req) (new_api_key req) userId (body_name req)
                    (or_default (body_cpuLimit req) (DEFAULT_CPU_LIMIT ev) ''1.0'')
                    (or_default (body_memoryLimit req) (DEFAULT_MEMORY_LIMIT ev) ''512m'') of
               Inr (row, db') \<Rightarrow> (Response 201 ''Workspace created successfully'', db', [])
             | Inl e \<Rightarrow>
                 if e = ''Workspace name already exists'' then (Response 409 ''Conflict'', db, [])
                 else (Response 500 e, db, [])))"

section \<open>GET /api/payments/subscription (routes/payments.js)\<close>

text \<open>
  The handler stores the value of \<open>subscriptionModel.findByUserId\<close>, an Array of rows, in
  \<open>subscription\<close> and then uses it as one row. \<open>!subscription\<close> is false for every Array, the
  empty one too; and an Array has no property named after a column, so reading one gives
  \<open>undefined\<close>.
\<close>

definition js_not_array :: "'row list \<Rightarrow> bool" where
  "js_not_array rows = False"

definition array_property :: "'row list \<Rightarrow> ('row \<Rightarrow> 'a) \<Rightarrow> 'a option" where
  "array_property rows column = None"

record subscription_view =
  view_status :: "string option"
  view_plan :: "string option"
  view_current_period_start :: "int option"
  view_current_period_end :: "int option"
  workspace_limit :: nat
  view_cancelled_at :: "int option"
  is_active :: bool
  days_remaining :: int

datatype subscription_response =
    SubscriptionError nat string
  | SubscriptionOk subscription_view

text \<open>\<open>Math.ceil((end - now) / 86400000)\<close> on integer milliseconds.\<close>

definition days_between :: "int \<Rightarrow> int \<Rightarrow> int" where
  "days_between now end = - ((now - end) div 86400000)"

definition get_subscription :: "database \<Rightarrow> int \<Rightarrow> string \<Rightarrow> subscription_response" where
  "get_subscription db now userId =
     (let subscription = sub_findByUserId db userId in
      if js_not_array subscription then SubscriptionError 404 ''No subscription''
      else SubscriptionOk
        \<lparr>view_status = array_property subscription status,
         view_plan = array_property subscription plan_id,
         view_current_period_start = array_property subscription current_period_start,
         view_current_period_end = array_property subscription current_period_end,
         workspace_limit = 5,
         view_cancelled_at = (case array_property subscription cancelled_at of
                                None \<Rightarrow> None | Some c \<Rightarrow> c),
         is_active = (array_property subscription status = Some ''active''),
         days_remaining = (case array_property subscription current_period_end of
                             None \<Rightarrow> 0
                           | Some e \<Rightarrow> days_between now e)\<rparr>)"

section \<open>Authenticated reverse proxy (routes/proxy.js)\<close>

text \<open>
  \<open>req.headers\<close> is a dictionary from header names to values. \<open>raw_body\<close> is the body that
  the client sent, \<open>req_body\<close> is \<open>req.body\<close> as the body parsers that index.js installs
  before the router (\<open>express.json\<close>, \<open>express.urlencoded\<close>) have left it.
\<close>

record proxy_request =
  req_headers :: "string \<rightharpoonup> string"
  originalUrl :: string
  params_workspaceId :: string
  req_method :: string
  raw_body :: string
  req_body :: "json option"

record proxy_opts =
  opt_headers :: "string \<rightharpoonup> string"
  opt_method :: string

record forwarded_request =
  fw_target :: string
  fw_path :: string
  fw_opts :: proxy_opts
  fw_body :: string

definition authenticateApiKey ::
  "env \<Rightarrow> docker \<Rightarrow> int \<Rightarrow> database \<Rightarrow> proxy_request \<Rightarrow> http_response + (workspace \<times> string)" where
  "authenticateApiKey ev d now db req =
     (case (if truthy (req_headers req ''x-api-key'') then req_headers req ''x-api-key'' else None) of
        None \<Rightarrow> Inl (Response 401 ''Authentication required'')
      | Some apiKey \<Rightarrow>
     (case findByApiKey db apiKey of
        None \<Rightarrow> Inl (Response 401 ''Authentication failed'')
      | Some ws \<Rightarrow>
          if \<not> hasActive db now (ws_user_id ws) then Inl (Response 403 ''Subscription required'')
          else if container_status ws \<noteq> ''running'' then Inl (Response 503 ''Service unavailable'')
          else
     (case (if truthy (container_id ws) then container_id ws else None) of
        None \<Rightarrow> Inl (Response 503 ''Service unavailable'')
      | Some containerId \<Rightarrow>
     (case getContainerIp d (OPENCLAW_NETWORK ev) containerId of
        None \<Rightarrow> Inl (Response 503 ''Service unavailable'')
      | Some containerIp \<Rightarrow>
          if containerIp = [] then Inl (Response 503 ''Service unavailable'')
          else Inr (ws, ''http://'' @ containerIp @ '':'' @ OPENCLAW_PORT ev)))))"

definition proxyReqPathResolver :: "workspace \<Rightarrow> proxy_request \<Rightarrow> string" where
  "proxyReqPathResolver ws req =
     (let prefix = ''/api/proxy/'' @ ws_id ws;
          newPath = replace_first prefix [] (originalUrl req)
      in if newPath = [] then ''/'' else newPath)"

definition proxyReqOptDecorator :: "proxy_opts \<Rightarrow> proxy_opts" where
  "proxyReqOptDecorator proxyReqOpts =
     proxyReqOpts\<lparr>opt_headers := (opt_headers proxyReqOpts)(''x-api-key'' := None)\<rparr>"

text \<open>
  The steps of express-http-proxy (a dependency, not under src/; release 1.6) around the
  three callbacks of the route, with the options that the route leaves at their defaults.
  \<open>reqHeaders\<close> copies the client's headers except \<open>connection\<close>, \<open>content-length\<close> and
  \<open>host\<close>, and sets \<open>connection\<close> to \<open>close\<close>. \<open>bodyContent\<close> is \<open>req.body\<close> when a parser has
  set it, serialised with \<open>JSON.stringify\<close>, and the raw body otherwise. After the decorator
  of the route, \<open>prepareProxyReq\<close> sets \<open>content-length\<close> and \<open>Accept-Charset\<close>;
  \<open>sendProxyRequest\<close> rewrites a non-empty body of a form post and sets the length again.
\<close>

definition reqHeaders :: "(string \<rightharpoonup> string) \<Rightarrow> (string \<rightharpoonup> string)" where
  "reqHeaders h =
     (\<lambda>k. if k = ''connection'' \<or> k = ''content-length'' \<or> k = ''host'' then None else h k)
       (''connection'' \<mapsto> ''close'')"

definition createRequestOptions :: "proxy_request \<Rightarrow> proxy_opts" where
  "createRequestOptions req =
     \<lparr>opt_headers = reqHeaders (req_headers req), opt_method = req_method req\<rparr>"

definition bodyContent :: "env \<Rightarrow> proxy_request \<Rightarrow> string" where
  "bodyContent ev req =
     (case req_body req of
        Some v \<Rightarrow> JSON_stringify ev v
      | None \<Rightarrow> raw_body req)"

definition prepareProxyReq :: "proxy_opts \<Rightarrow> string \<Rightarrow> proxy_opts" where
  "prepareProxyReq reqOpt content =
     reqOpt\<lparr>opt_headers := (opt_headers reqOpt)
       (''content-length'' \<mapsto> decimal (int (length content)), ''Accept-Charset'' \<mapsto> ''utf-8'')\<rparr>"

definition is_form_post :: "proxy_opts \<Rightarrow> bool" where
  "is_form_post reqOpt =
     (opt_headers reqOpt ''content-type'' = Some ''x-www-form-urlencoded'' \<or>
      opt_headers reqOpt ''content-type'' = Some ''application/x-www-form-urlencoded'')"

definition sendProxyRequest :: "env \<Rightarrow> proxy_opts \<Rightarrow> string \<Rightarrow> proxy_opts \<times> string" where
  "sendProxyRequest ev reqOpt content =
     (if content = [] then (reqOpt, content)
      else
        (let body = (if is_form_post reqOpt then form_urlencode ev content else content)
         in (reqOpt\<lparr>opt_headers := (opt_headers reqOpt)
                      (''content-length'' \<mapsto> decimal (int (length body)))\<rparr>, body)))"

text \<open>
  The route: either the response of \<open>authenticateApiKey\<close>, or the request sent upstream. The
  upstream container and its answer (and the 502 on a failed connection) lie outside.
\<close>

definition proxy_route ::
  "env \<Rightarrow> docker \<Rightarrow> int \<Rightarrow> database \<Rightarrow> proxy_request \<Rightarrow> http_response + forwarded_request" where
  "proxy_route ev d now db req =
     (case authenticateApiKey ev d now db req of
        Inl r \<Rightarrow> Inl r
      | Inr (ws, containerTarget) \<Rightarrow>
          (case sendProxyRequest ev
                  (prepareProxyReq (proxyReqOptDecorator (createRequestOptions req))
                     (bodyContent ev req))
                  (bodyContent ev req) of
             (reqOpt, sent) \<Rightarrow>
               Inr \<lparr>fw_target = containerTarget,
                    fw_path = proxyReqPathResolver ws req,
                    fw_opts = reqOpt,
                    fw_body = sent\<rparr>))"

text \<open>
  What Node guarantees of \<open>req.headers\<close>: every name is in lower case, whatever the
  lower-casing function.
\<close>

definition lowercase_names :: "(string \<Rightarrow> string) \<Rightarrow> (string \<rightharpoonup> string) \<Rightarrow> bool" where
  "lowercase_names toLowerCase h = (\<forall>k \<in> dom h. toLowerCase k = k)"

section \<open>Subscription state machine (services/webhookHandler.js)\<close>

definition VALID_TRANSITIONS :: "string \<Rightarrow> string list option" where
  "VALID_TRANSITIONS fromState =
     (if fromState = ''pending'' then Some [''active'']
      else if fromState = ''active'' then Some [''past_due'', ''cancelled'', ''expired'']
      else if fromState = ''past_due'' then Some [''active'', ''cancelled'', ''expired'']
      else if fromState = ''cancelled'' then Some []
      else if fromState = ''expired'' then Some []
      else None)"

definition isValidTransition :: "string \<Rightarrow> string \<Rightarrow> bool" where
  "isValidTransition fromState toState =
     (case VALID_TRANSITIONS fromState of
        None \<Rightarrow> False
      | Some targets \<Rightarrow> toState \<in> set targets)"


text \<open>
  \<open>getAndLockSubscription\<close>: the first row with the given provider id. An \<open>undefined\<close>
  parameter is sent as \<open>NULL\<close>, which equals no column value.
\<close>

definition getAndLockSubscription :: "database \<Rightarrow> string option \<Rightarrow> subscription option" where
  "getAndLockSubscription db razorpaySubscriptionId =
     (case razorpaySubscriptionId of
        None \<Rightarrow> None
      | Some rid \<Rightarrow> find (\<lambda>s. razorpay_subscription_id s = Some rid) (subscriptions db))"

text \<open>
  \<open>UPDATE subscriptions SET ... WHERE id = $n\<close>. The statement raises when it names
  \<open>cancelled_at\<close> and the table has no such column, and when a row that it changes would get
  a state that the check constraint does not admit.
\<close>

definition apply_update ::
  "database \<Rightarrow> string \<Rightarrow> (subscription \<Rightarrow> subscription) \<Rightarrow> database" where
  "apply_update db subscriptionId f =
     db\<lparr>subscriptions := map (\<lambda>s. if sub_id s = subscriptionId then f s else s) (subscriptions db)\<rparr>"

definition update_subscription ::
  "schema \<Rightarrow> database \<Rightarrow> string \<Rightarrow> bool \<Rightarrow> (subscription \<Rightarrow> subscription) \<Rightarrow> js_error + database" where
  "update_subscription sch db subscriptionId sets_cancelled_at f =
     (if sets_cancelled_at \<and> \<not> has_cancelled_at sch
      then Inl ''column cancelled_at of relation subscriptions does not exist''
      else if list_ex (\<lambda>s. sub_id s = subscriptionId \<and> \<not> status_allowed sch (status (f s)))
                (subscriptions db)
      then Inl ''new row violates check constraint check_subscription_status''
      else Inr (apply_update db subscriptionId f))"

text \<open>
  \<open>new Date(entity.current_start * 1000)\<close> as a query parameter: when the field is absent the
  date is invalid and the statement raises.
\<close>

definition period_of :: "entity \<Rightarrow> js_error + (int \<times> int)" where
  "period_of ent =
     (case (current_start ent, current_end ent) of
        (Some s, Some e) \<Rightarrow> Inr (s * 1000, e * 1000)
      | _ \<Rightarrow> Inl ''invalid input syntax for type timestamp'')"

text \<open>
  \<open>INSERT INTO payment_events\<close>. The statement raises when the table has no column
  \<open>razorpay_event_id\<close>, when the event type is \<open>undefined\<close> (the column is \<open>NOT NULL\<close>) or
  wider than its column, when the payment id is wider than its column, and, where the
  event id is unique, when the id is already in the table.
\<close>

definition insertPaymentEvent ::
  "schema \<Rightarrow> database \<Rightarrow> int \<Rightarrow> string option \<Rightarrow> string option \<Rightarrow> webhook_payload \<Rightarrow> string \<Rightarrow>
     string option \<Rightarrow> js_error + database" where
  "insertPaymentEvent sch db now subscriptionId eventType webhookPayload eventId razorpayPaymentId =
     (if \<not> has_razorpay_event_id sch
      then Inl ''column razorpay_event_id of relation payment_events does not exist''
      else
     (case eventType of
        None \<Rightarrow> Inl ''null value in column event_type violates not-null constraint''
      | Some et \<Rightarrow>
          if char_length et > 50 then Inl ''value too long for type character varying(50)''
          else if (case razorpayPaymentId of None \<Rightarrow> False | Some p \<Rightarrow> char_length p > 100)
          then Inl ''value too long for type character varying(100)''
          else if razorpay_event_id_unique sch \<and>
                  list_ex (\<lambda>e. razorpay_event_id e = eventId) (payment_events db)
          then Inl ''duplicate key value violates unique constraint''
          else Inr (db\<lparr>payment_events := payment_events db @
                 [\<lparr>pe_subscription_id = subscriptionId, event_type = et,
                   razorpay_payment_id = razorpayPaymentId, razorpay_event_id = eventId,
                   pe_webhook_payload = webhookPayload, amount_cents = None, currency = ''INR'',
                   pe_created_at = now\<rparr>]\<rparr>)))"

text \<open>
  \<open>stopUserContainers\<close> works through the connection pool, outside the transaction, and
  swallows every error. One workspace:
\<close>

definition stop_one :: "docker \<Rightarrow> int \<Rightarrow> database \<Rightarrow> workspace \<Rightarrow> database" where
  "stop_one d now db w =
     (case (if truthy (container_id w) then container_id w else None) of
        None \<Rightarrow> db
      | Some containerId \<Rightarrow>
     (case stopContainer d containerId 30 of
        Inl e \<Rightarrow> db
      | Inr _ \<Rightarrow>
     (case updateStatus db now (ws_id w) ''stopped'' of
        Inl e \<Rightarrow> db
      | Inr db' \<Rightarrow> db')))"

definition stopUserContainers :: "docker \<Rightarrow> int \<Rightarrow> database \<Rightarrow> string option \<Rightarrow> database" where
  "stopUserContainers d now db userId =
     foldl (stop_one d now) db
       (filter (\<lambda>w. container_status w = ''running'') (ws_findByUserId db userId))"

definition handleSubscriptionActivated ::
  "schema \<Rightarrow> int \<Rightarrow> database \<Rightarrow> entity \<Rightarrow> webhook_payload \<Rightarrow> string \<Rightarrow> js_error + database" where
  "handleSubscriptionActivated sch now db ent webhookPayload eventId =
     (case getAndLockSubscription db (entity_id ent) of
        None \<Rightarrow> Inr db
      | Some sub \<Rightarrow>
          if \<not> isValidTransition (status sub) ''active''
          then insertPaymentEvent sch db now (Some (sub_id sub)) (Some ''subscription.activated'')
                 webhookPayload eventId None
          else
     (case period_of ent of
        Inl e \<Rightarrow> Inl e
      | Inr (period_start, period_end) \<Rightarrow>
     (case update_subscription sch db (sub_id sub) False
             (\<lambda>s. s\<lparr>status := ''active'', current_period_start := period_start,
                     current_period_end := period_end, sub_updated_at := now\<rparr>) of
        Inl e \<Rightarrow> Inl e
      | Inr db1 \<Rightarrow>
          insertPaymentEvent sch db1 now (Some (sub_id sub)) (Some ''subscription.activated'')
            webhookPayload eventId None)))"

definition payment_id_of :: "webhook_payload \<Rightarrow> string option" where
  "payment_id_of webhookPayload =
     (case payload webhookPayload of
        None \<Rightarrow> None
      | Some p \<Rightarrow> (case payment_entity p of None \<Rightarrow> None | Some e \<Rightarrow> entity_id e))"

definition handleSubscriptionCharged ::
  "schema \<Rightarrow> int \<Rightarrow> database \<Rightarrow> entity \<Rightarrow> webhook_payload \<Rightarrow> string \<Rightarrow> js_error + database" where
  "handleSubscriptionCharged sch now db ent webhookPayload eventId =
     (case getAndLockSubscription db (entity_id ent) of
        None \<Rightarrow> Inr db
      | Some sub \<Rightarrow>
     (case period_of ent of
        Inl e \<Rightarrow> Inl e
      | Inr (period_start, period_end) \<Rightarrow>
     (case update_subscription sch db (sub_id sub) False
             (\<lambda>s. s\<lparr>current_period_start := period_start, current_period_end := period_end,
                     sub_updated_at := now\<rparr>) of
        Inl e \<Rightarrow> Inl e
      | Inr db1 \<Rightarrow>
          insertPaymentEvent sch db1 now (Some (sub_id sub)) (Some ''subscription.charged'')
            webhookPayload eventId (payment_id_of webhookPayload))))"

definition handleSubscriptionCompleted ::
  "schema \<Rightarrow> docker \<Rightarrow> int \<Rightarrow> database \<Rightarrow> entity \<Rightarrow> webhook_payload \<Rightarrow> string \<Rightarrow>
     js_error + database" where
  "handleSubscriptionCompleted sch d now db ent webhookPayload eventId =
     (case getAndLockSubscription db (entity_id ent) of
        None \<Rightarrow> Inr db
      | Some sub \<Rightarrow>
          if \<not> isValidTransition (status sub) ''expired''
          then insertPaymentEvent sch db now (Some (sub_id sub)) (Some ''subscription.completed'')
                 webhookPayload eventId None
          else
     (case update_subscription sch db (sub_id sub) False
             (\<lambda>s. s\<lparr>status := ''expired'', sub_updated_at := now\<rparr>) of
        Inl e \<Rightarrow> Inl e
      | Inr db1 \<Rightarrow>
     (case insertPaymentEvent sch db1 now (Some (sub_id sub)) (Some ''subscription.completed'')
             webhookPayload eventId None of
        Inl e \<Rightarrow> Inl e
      | Inr db2 \<Rightarrow> Inr (stopUserContainers d now db2 (notes_user_id ent)))))"

definition handleSubscriptionCancelled ::
  "schema \<Rightarrow> docker \<Rightarrow> int \<Rightarrow> database \<Rightarrow> entity \<Rightarrow> webhook_payload \<Rightarrow> string \<Rightarrow>
     js_error + database" where
  "handleSubscriptionCancelled sch d now db ent webhookPayload eventId =
     (case getAndLockSubscription db (entity_id ent) of
        None \<Rightarrow> Inr db
      | Some sub \<Rightarrow>
     (case update_subscription sch db (sub_id sub) True
             (\<lambda>s. s\<lparr>status := ''cancelled'', cancelled_at := Some now,
                     sub_updated_at := now\<rparr>) of
        Inl e \<Rightarrow> Inl e
      | Inr db1 \<Rightarrow>
     (case insertPaymentEvent sch db1 now (Some (sub_id sub)) (Some ''subscription.cancelled'')
             webhookPayload eventId None of
        Inl e \<Rightarrow> Inl e
      | Inr db2 \<Rightarrow> Inr (stopUserContainers d now db2 (notes_user_id ent)))))"

text \<open>
  \<open>handleSubscriptionPending\<close>, \<open>handleSubscriptionHalted\<close> and \<open>handleSubscriptionPaused\<close>
  differ only in the event type they record; \<open>handleSubscriptionResumed\<close> has the same shape
  with target \<open>active\<close>.
\<close>

definition handle_status_only ::
  "string \<Rightarrow> string \<Rightarrow> schema \<Rightarrow> int \<Rightarrow> database \<Rightarrow> entity \<Rightarrow> webhook_payload \<Rightarrow> string \<Rightarrow>
     js_error + database" where
  "handle_status_only eventType toState sch now db ent webhookPayload eventId =
     (case getAndLockSubscription db (entity_id ent) of
        None \<Rightarrow> Inr db
      | Some sub \<Rightarrow>
          if \<not> isValidTransition (status sub) toState
          then insertPaymentEvent sch db now (Some (sub_id sub)) (Some eventType) webhookPayload
                 eventId None
          else
     (case update_subscription sch db (sub_id sub) False
             (\<lambda>s. s\<lparr>status := toState, sub_updated_at := now\<rparr>) of
        Inl e \<Rightarrow> Inl e
      | Inr db1 \<Rightarrow>
          insertPaymentEvent sch db1 now (Some (sub_id sub)) (Some eventType) webhookPayload
            eventId None))"

definition handleSubscriptionPending where
  "handleSubscriptionPending = handle_status_only ''subscription.pending'' ''past_due''"

definition handleSubscriptionHalted where
  "handleSubscriptionHalted = handle_status_only ''subscription.halted'' ''past_due''"

definition handleSubscriptionResumed where
  "handleSubscriptionResumed = handle_status_only ''subscription.resumed'' ''active''"

definition handleSubscriptionPaused where
  "handleSubscriptionPaused = handle_status_only ''subscription.paused'' ''past_due''"

definition handlePaymentFailed ::
  "schema \<Rightarrow> int \<Rightarrow> database \<Rightarrow> entity \<Rightarrow> webhook_payload \<Rightarrow> string \<Rightarrow> js_error + database" where
  "handlePaymentFailed sch now db ent webhookPayload eventId =
     (case getAndLockSubscription db (entity_subscription_id ent) of
        None \<Rightarrow> Inr db
      | Some sub \<Rightarrow>
          insertPaymentEvent sch db now (Some (sub_id sub)) (Some ''payment.failed'') webhookPayload
            eventId (entity_id ent))"

definition handleWebhookEvent ::
  "schema \<Rightarrow> docker \<Rightarrow> int \<Rightarrow> database \<Rightarrow> string option \<Rightarrow> entity \<Rightarrow> webhook_payload \<Rightarrow> string \<Rightarrow>
     js_error + database" where
  "handleWebhookEvent sch d now db eventType ent webhookPayload eventId =
     (if eventType = Some ''subscription.activated''
        then handleSubscriptionActivated sch now db ent webhookPayload eventId
      else if eventType = Some ''subscription.charged''
        then handleSubscriptionCharged sch now db ent webhookPayload eventId
      else if eventType = Some ''subscription.completed''
        then handleSubscriptionCompleted sch d now db ent webhookPayload eventId
      else if eventType = Some ''subscription.cancelled''
        then handleSubscriptionCancelled sch d now db ent webhookPayload eventId
      else if eventType = Some ''subscription.pending''
        then handleSubscriptionPending sch now db ent webhookPayload eventId
      else if eventType = Some ''subscription.halted''
        then handleSubscriptionHalted sch now db ent webhookPayload eventId
      else if eventType = Some ''subscription.resumed''
        then handleSubscriptionResumed sch now db ent webhookPayload eventId
      else if eventType = Some ''subscription.paused''
        then handleSubscriptionPaused sch now db ent webhookPayload eventId
      else if eventType = Some ''payment.failed''
        then handlePaymentFailed sch now db ent webhookPayload eventId
      else insertPaymentEvent sch db now None eventType webhookPayload eventId None)"

section \<open>Webhook endpoint (config/razorpay.js, routes/payments.js)\<close>

text \<open>
  \<open>crypto.timingSafeEqual\<close> (Node) throws on buffers of different length; on equal lengths
  it looks at every pair of bytes, whatever their values, and answers whether all pairs are
  equal. \<open>compare_all\<close> also counts the pairs it has looked at.
\<close>

fun compare_all :: "string \<Rightarrow> string \<Rightarrow> bool \<times> nat" where
  "compare_all (x # xs) (y # ys) =
     (case compare_all xs ys of (equal, pairs) \<Rightarrow> (x = y \<and> equal, Suc pairs))"
| "compare_all xs ys = (True, 0)"

definition timingSafeEqual :: "string \<Rightarrow> string \<Rightarrow> js_error + (bool \<times> nat)" where
  "timingSafeEqual a b =
     (if length a \<noteq> length b then Inl ''Input buffers must have the same byte length''
      else Inr (compare_all a b))"

text \<open>
  HMAC-SHA256 with hex output is a parameter (key, message to digest). The \<open>catch\<close> turns
  the exception of \<open>timingSafeEqual\<close> into \<open>false\<close>. \<open>signature_check\<close> is the result together
  with the number of byte pairs compared.
\<close>

definition signature_check ::
  "(string \<Rightarrow> string \<Rightarrow> string) \<Rightarrow> string \<Rightarrow> string \<Rightarrow> string \<Rightarrow> bool \<times> nat" where
  "signature_check hmac_sha256_hex WEBHOOK_SECRET razorpaySignature requestBody =
     (let expectedSignature = hmac_sha256_hex WEBHOOK_SECRET requestBody in
      case timingSafeEqual razorpaySignature expectedSignature of
        Inl e \<Rightarrow> (False, 0)
      | Inr r \<Rightarrow> r)"

definition verifyWebhookSignature ::
  "(string \<Rightarrow> string \<Rightarrow> string) \<Rightarrow> string \<Rightarrow> string \<Rightarrow> string \<Rightarrow> bool" where
  "verifyWebhookSignature hmac_sha256_hex WEBHOOK_SECRET razorpaySignature requestBody =
     fst (signature_check hmac_sha256_hex WEBHOOK_SECRET razorpaySignature requestBody)"

text \<open>
  \<open>req.body\<close> after \<open>express.raw\<close>: absent (falsy), present but not a Buffer, or a Buffer with
  the raw bytes.
\<close>

datatype raw_body = BodyMissing | BodyNotBuffer | BodyBuffer string

record webhook_request =
  signature :: "string option"
  body :: raw_body

text \<open>
  \<open>JSON.parse\<close> followed by the reads of the fields in \<open>webhook_payload\<close> is a parameter: it
  throws, or yields \<open>null\<close>, or a value whose fields are read.
\<close>

datatype parse_result = SyntaxError | ParsedNull | Parsed webhook_payload

record webhook_env =
  WEBHOOK_SECRET :: string
  hmac_sha256_hex :: "string \<Rightarrow> string \<Rightarrow> string"
  JSON_parse :: "string \<Rightarrow> parse_result"
  db_schema :: schema

definition event_id_of :: "int \<Rightarrow> webhook_payload \<Rightarrow> string" where
  "event_id_of now webhookPayload =
     (let paymentId = payment_id_of webhookPayload;
          subscriptionId =
            (case payload webhookPayload of
               None \<Rightarrow> None
             | Some p \<Rightarrow> (case subscription_entity p of None \<Rightarrow> None | Some e \<Rightarrow> entity_id e))
      in case js_or paymentId subscriptionId of
           None \<Rightarrow> ''event_'' @ decimal now
         | Some s \<Rightarrow> if s \<noteq> [] then s else ''event_'' @ decimal now)"

text \<open>The entity that \<open>processWebhookEvent\<close> hands to the handler.\<close>

definition event_entity :: "webhook_payload \<Rightarrow> entity option" where
  "event_entity webhookPayload =
     (case payload webhookPayload of
        None \<Rightarrow> None
      | Some p \<Rightarrow> (case subscription_entity p of Some e \<Rightarrow> Some e | None \<Rightarrow> payment_entity p))"

text \<open>
  \<open>processWebhookEvent\<close>: \<open>BEGIN\<close>, the handler, \<open>COMMIT\<close>; an error of the handler rolls the
  transaction back and is thrown again. A body without \<open>payload\<close> raises a \<open>TypeError\<close> before
  the transaction starts.
\<close>

definition processWebhookEvent ::
  "schema \<Rightarrow> docker \<Rightarrow> int \<Rightarrow> database \<Rightarrow> webhook_payload \<Rightarrow> string \<Rightarrow>
     (js_error + unit) \<times> database" where
  "processWebhookEvent sch d now db webhookPayload eventId =
     (case payload webhookPayload of
        None \<Rightarrow> (Inl ''TypeError'', db)
      | Some p \<Rightarrow>
     (case event_entity webhookPayload of
        None \<Rightarrow> (Inr (), db)
      | Some ent \<Rightarrow>
          if \<not> truthy (js_or (entity_id ent) (entity_subscription_id ent)) then (Inr (), db)
          else
            (case handleWebhookEvent sch d now db (event webhookPayload) ent webhookPayload
                    eventId of
               Inl e \<Rightarrow> (Inl e, db)
             | Inr db' \<Rightarrow> (Inr (), db'))))"

text \<open>
  The route. The handler works on \<open>req.body.toString('utf8')\<close>. The idempotency \<open>SELECT\<close>
  raises when the table has no column \<open>razorpay_event_id\<close>.
\<close>

definition razorpay_webhook ::
  "webhook_env \<Rightarrow> docker \<Rightarrow> int \<Rightarrow> database \<Rightarrow> webhook_request \<Rightarrow> http_response \<times> database" where
  "razorpay_webhook wenv d now db req =
     (case body req of
        BodyMissing \<Rightarrow> (Response 400 ''Body missing'', db)
      | BodyNotBuffer \<Rightarrow> (Response 400 ''Body must be raw'', db)
      | BodyBuffer bytes \<Rightarrow>
     (let rawBody = toString_utf8 bytes in
      case (if truthy (signature req) then signature req else None) of
        None \<Rightarrow> (Response 401 ''Signature missing'', db)
      | Some sig \<Rightarrow>
          if \<not> verifyWebhookSignature (hmac_sha256_hex wenv) (WEBHOOK_SECRET wenv) sig rawBody
          then (Response 401 ''Invalid signature'', db)
          else
     (case JSON_parse wenv rawBody of
        SyntaxError \<Rightarrow> (Response 400 ''Invalid JSON'', db)
      | ParsedNull \<Rightarrow> (Response 500 ''Internal error'', db)
      | Parsed webhookPayload \<Rightarrow>
          (let eventId = event_id_of now webhookPayload in
           if \<not> has_razorpay_event_id (db_schema wenv) then (Response 503 ''Database error'', db)
           else if list_ex (\<lambda>e. razorpay_event_id e = eventId) (payment_events db)
           then (Response 200 ''already_processed'', db)
           else
             (case processWebhookEvent (db_schema wenv) d now db webhookPayload eventId of
                (Inl e, db') \<Rightarrow> (Response 500 ''Processing failed'', db')
              | (Inr _, db') \<Rightarrow> (Response 200 ''success'', db'))))))"


text \<open>A run of webhook deliveries, each with the clock value at its arrival.\<close>

fun deliver :: "webhook_env \<Rightarrow> docker \<Rightarrow> database \<Rightarrow> (int \<times> webhook_request) list \<Rightarrow> database" where
  "deliver wenv d db [] = db"
| "deliver wenv d db ((now, req) # rest) =
     deliver wenv d (snd (razorpay_webhook wenv d now db req)) rest"

text \<open>The rows of the ledger that carry a given event id.\<close>

definition ledger_rows :: "database \<Rightarrow> string \<Rightarrow> payment_event list" where
  "ledger_rows db eventId = filter (\<lambda>e. razorpay_event_id e = eventId) (payment_events db)"


text \<open>The state of the subscription with a given id, if there is one.\<close>

definition status_of :: "database \<Rightarrow> string \<Rightarrow> string option" where
  "status_of db subscriptionId =
     map_option status (find (\<lambda>s. sub_id s = subscriptionId) (subscriptions db))"

section \<open>Example values\<close>

text \<open>An engine on which container \<open>c1\<close> exists and is in whatever state is asked for.\<close>

definition docker_already :: docker where
  "docker_already =
     \<lparr>listNetworks = (\<lambda>n. Inr 1),
      createNetwork = (\<lambda>n. Inr ()),
      docker_createContainer = (\<lambda>n. Inr ''c1''),
      inspect = (\<lambda>c. Inr \<lparr>Networks = [(''openclaw_internal'', ''172.18.0.2'')]\<rparr>),
      start = (\<lambda>c. Inl \<lparr>statusCode = Some 304, message = ''container already started''\<rparr>),
      stop = (\<lambda>c t. Inl \<lparr>statusCode = Some 304, message = ''container already stopped''\<rparr>),
      remove = (\<lambda>c f. Inr ()),
      restart = (\<lambda>c t. Inr ())\<rparr>"

text \<open>An engine that knows no container.\<close>

definition docker_absent :: docker where
  "docker_absent =
     \<lparr>listNetworks = (\<lambda>n. Inr 1),
      createNetwork = (\<lambda>n. Inr ()),
      docker_createContainer = (\<lambda>n. Inr ''c1''),
      inspect = (\<lambda>c. Inl \<lparr>statusCode = Some 404, message = ''no such container''\<rparr>),
      start = (\<lambda>c. Inl \<lparr>statusCode = Some 404, message = ''no such container''\<rparr>),
      stop = (\<lambda>c t. Inl \<lparr>statusCode = Some 404, message = ''no such container''\<rparr>),
      remove = (\<lambda>c f. Inl \<lparr>statusCode = Some 404, message = ''no such container''\<rparr>),
      restart = (\<lambda>c t. Inl \<lparr>statusCode = Some 404, message = ''no such container''\<rparr>)\<rparr>"

text \<open>An engine on which every call succeeds.\<close>

definition docker_fine :: docker where
  "docker_fine =
     \<lparr>listNetworks = (\<lambda>n. Inr 1),
      createNetwork = (\<lambda>n. Inr ()),
      docker_createContainer = (\<lambda>n. Inr ''c1''),
      inspect = (\<lambda>c. Inr \<lparr>Networks = [(''openclaw_internal'', ''172.18.0.2'')]\<rparr>),
      start = (\<lambda>c. Inr ()),
      stop = (\<lambda>c t. Inr ()),
      remove = (\<lambda>c f. Inr ()),
      restart = (\<lambda>c t. Inr ())\<rparr>"

text \<open>
  An environment with stand-ins: both UUID checks accept the strings of 36 characters, the
  serialiser knows the array \<open>[1,2]\<close> and the empty object, and the limit validators accept
  everything.
\<close>

definition env0 :: env where
  "env0 =
     \<lparr>isUUID = (\<lambda>s. length s = 36),
      pg_uuid = (\<lambda>s. length s = 36),
      JSON_stringify = (\<lambda>v. if v = JArr [JNum 1, JNum 2] then ''[1,2]'' else ''{}''),
      form_urlencode = (\<lambda>s. s),
      validateCpuLimit = (\<lambda>s. None),
      validateMemoryLimit = (\<lambda>s. None),
      OPENCLAW_NETWORK = ''openclaw_internal'',
      OPENCLAW_PORT = ''8080'',
      MAX_WORKSPACES_PER_USER = 3,
      DEFAULT_CPU_LIMIT = None,
      DEFAULT_MEMORY_LIMIT = None\<rparr>"

definition user1 :: string where
  "user1 = ''22222222-2222-4222-8222-222222222222''"

definition ws1 :: string where
  "ws1 = ''11111111-1111-4111-8111-111111111111''"

text \<open>A workspace row of \<open>user1\<close> with the given engine handle and runtime state.\<close>

definition ws_row :: "string option \<Rightarrow> string \<Rightarrow> workspace" where
  "ws_row handle st =
     \<lparr>ws_id = ws1, ws_user_id = user1, ws_name = ''dev'', api_key = ''k1'', cpu_limit = ''1.0'',
      memory_limit = ''512m'', container_id = handle, container_status = st, ws_created_at = 10,
      ws_updated_at = 10, last_started_at = None\<rparr>"

text \<open>A subscription row of \<open>user1\<close> in the given state, with its period ending at 5000.\<close>

definition sub_row :: "string \<Rightarrow> subscription" where
  "sub_row st =
     \<lparr>sub_id = ''s1'', sub_user_id = user1, razorpay_subscription_id = Some ''sub_1'',
      status = st, plan_id = ''plan_monthly_basic'', current_period_start = 0,
      current_period_end = 5000, cancelled_at = None, sub_created_at = 5, sub_updated_at = 5\<rparr>"

definition db_of :: "workspace list \<Rightarrow> subscription list \<Rightarrow> database" where
  "db_of ws subs = \<lparr>workspaces = ws, subscriptions = subs, payment_events = []\<rparr>"


definition proxy_post :: proxy_request where
  "proxy_post =
     \<lparr>req_headers = [''x-api-key'' \<mapsto> ''k1'', ''host'' \<mapsto> ''api.example.com'',
                      ''connection'' \<mapsto> ''keep-alive'', ''content-length'' \<mapsto> ''6'',
                      ''content-type'' \<mapsto> ''application/json''],
      originalUrl = ''/api/proxy/'' @ ws1 @ ''/run'',
      params_workspaceId = ws1,
      req_method = ''POST'',
      raw_body = ''[1, 2]'',
      req_body = Some (JArr [JNum 1, JNum 2])\<rparr>"

definition db_running :: database where
  "db_running = db_of [ws_row (Some ''c1'') ''running''] [sub_row ''active'']"

definition db_stopped :: database where
  "db_stopped = db_of [ws_row (Some ''c1'') ''stopped''] [sub_row ''active'']"

definition db_never_started :: database where
  "db_never_started = db_of [ws_row None ''stopped''] [sub_row ''active'']"

definition db_unentitled :: database where
  "db_unentitled = db_of [ws_row None ''stopped''] [sub_row ''cancelled'']"

definition start_req :: ws_request where
  "start_req = \<lparr>params_id = ws1, rate_limited = False\<rparr>"

text \<open>A request whose path names no UUID.\<close>

definition start_req_malformed :: ws_request where
  "start_req_malformed = \<lparr>params_id = ''1'', rate_limited = False\<rparr>"

definition create_req :: create_request where
  "create_req =
     \<lparr>body_name = ''second'', body_cpuLimit = None, body_memoryLimit = Some ''1g'',
      body_valid = True, new_id = ''33333333-3333-4333-8333-333333333333'',
      new_api_key = ''k2''\<rparr>"

text \<open>
  A webhook environment with stand-ins: the MAC is a tagged concatenation of key and body,
  the parser knows four bodies, and the tables are those of \<open>schema_handlers\<close>.
\<close>

definition sub_entity :: "string \<Rightarrow> entity" where
  "sub_entity rid =
     \<lparr>entity_id = Some rid, entity_subscription_id = None, notes_user_id = Some user1,
      current_start = Some 6, current_end = Some 9\<rparr>"

definition sub_event :: "string \<Rightarrow> string \<Rightarrow> webhook_payload" where
  "sub_event eventType rid =
     \<lparr>event = Some eventType,
      payload = Some \<lparr>payment_entity = None, subscription_entity = Some (sub_entity rid)\<rparr>\<rparr>"

text \<open>A body with a byte that is no UTF-8, and the text that \<open>toString('utf8')\<close> makes of it.\<close>

definition ill_formed_body :: string where
  "ill_formed_body = ''activated sub_1 '' @ [CHR 0xFF]"

definition wenv0 :: webhook_env where
  "wenv0 =
     \<lparr>WEBHOOK_SECRET = ''whsec_test'',
      hmac_sha256_hex = (\<lambda>key msg. ''mac:'' @ key @ '':'' @ msg),
      JSON_parse = (\<lambda>rawBody.
        case map_of
          [(''activated sub_unknown'', sub_event ''subscription.activated'' ''sub_unknown''),
           (''activated sub_1'', sub_event ''subscription.activated'' ''sub_1''),
           (''cancelled sub_1'', sub_event ''subscription.cancelled'' ''sub_1''),
           (''activated sub_1 '' @ replacement, sub_event ''subscription.activated'' ''sub_1'')]
          rawBody of
          Some webhookPayload \<Rightarrow> Parsed webhookPayload
        | None \<Rightarrow> SyntaxError),
      db_schema = schema_handlers\<rparr>"


definition signed :: "string \<Rightarrow> webhook_request" where
  "signed rawBody =
     \<lparr>signature = Some (hmac_sha256_hex wenv0 (WEBHOOK_SECRET wenv0) rawBody),
      body = BodyBuffer rawBody\<rparr>"


definition db_pending :: database where
  "db_pending = db_of [] [sub_row ''pending'']"

definition db_cancelled :: database where
  "db_cancelled = db_of [] [sub_row ''cancelled'']"

definition tampered :: webhook_request where
  "tampered =
     \<lparr>signature = Some (hmac_sha256_hex wenv0 (WEBHOOK_SECRET wenv0) ''activated sub_1''),
      body = BodyBuffer ''activated sub_2''\<rparr>"

text \<open>A request signed over the decoded text of \<open>ill_formed_body\<close>, not over its bytes.\<close>

definition signed_decoded :: webhook_request where
  "signed_decoded =
     \<lparr>signature = Some (hmac_sha256_hex wenv0 (WEBHOOK_SECRET wenv0)
                          (toString_utf8 ill_formed_body)),
      body = BodyBuffer ill_formed_body\<rparr>"


section \<open>The logger's redaction\<close>

lemma not_object_redact: "\<not> is_object v \<Longrightarrow> redactSecrets lc v = v"
  by (cases v) auto

lemma not_object_redacted_ok: "\<not> is_object v \<Longrightarrow> redacted_ok lc v"
  by (cases v) auto

lemma redact_ok: "redacted_ok lc (redactSecrets lc v)"
  by (induction lc v rule: redactSecrets.induct)
     (auto simp: list_all_iff not_object_redacted_ok split: prod.splits)

lemma redact_entries:
  "redactSecrets lc (JObj kvs) =
     JObj (map (\<lambda>(key, v). (key, if isSecret lc key then REDACTED else redactSecrets lc v))
            (filter (\<lambda>(key, v). key \<noteq> ''__proto__'') kvs))"
  by (auto simp: not_object_redact)

lemma map_of_entries:
  "map_of (map (\<lambda>(key, v). (key, h key v)) (filter (\<lambda>(key, v). key \<noteq> p) kvs)) k =
     (if k = p then None else map_option (h k) (map_of kvs k))"
  by (induction kvs) auto

lemma redact_lookup:
  "map_of (case redactSecrets lc (JObj kvs) of JObj kvs' \<Rightarrow> kvs' | _ \<Rightarrow> []) k =
     (if k = ''__proto__'' then None
      else map_option (\<lambda>v. if isSecret lc k then REDACTED else redactSecrets lc v) (map_of kvs k))"
  unfolding redact_entries by (simp add: map_of_entries)

lemma json_at_obj:
  "json_at (redactSecrets lc (JObj kvs)) (Key k # p) =
     (if k = ''__proto__'' then None
      else case map_of kvs k of None \<Rightarrow> None
           | Some v \<Rightarrow> json_at (if isSecret lc k then REDACTED else redactSecrets lc v) p)"
  unfolding redact_entries by (simp add: map_of_entries split: option.splits)

lemma json_at_arr:
  "json_at (redactSecrets lc (JArr xs)) (Index i # p) =
     (if i < length xs then json_at (redactSecrets lc (xs ! i)) p else None)"
  by simp

lemma json_at_REDACTED: "json_at REDACTED p = (if p = [] then Some REDACTED else None)"
  by (cases p) (auto simp: REDACTED_def)

lemma plain_kept:
  "plain_path lc p \<Longrightarrow> json_at v p = Some x \<Longrightarrow>
     json_at (redactSecrets lc v) p = Some (redactSecrets lc x)"
proof (induction p arbitrary: v)
  case Nil
  then show ?case by simp
next
  case (Cons s p)
  show ?case
  proof (cases v)
    case (JObj kvs)
    with Cons.prems obtain k v' where s: "s = Key k" and l: "map_of kvs k = Some v'"
      and a: "json_at v' p = Some x"
      by (cases s) (auto split: option.splits)
    from Cons.prems(1) s have k: "\<not> isSecret lc k" "k \<noteq> ''__proto__''" and pp: "plain_path lc p"
      by (simp_all add: plain_path_def)
    from Cons.IH[OF pp a] show ?thesis
      unfolding JObj s json_at_obj by (simp add: k l)
  next
    case (JArr xs)
    with Cons.prems obtain i where s: "s = Index i" and i: "i < length xs"
      and a: "json_at (xs ! i) p = Some x"
      by (cases s) (auto split: if_splits)
    from Cons.prems(1) have pp: "plain_path lc p"
      by (simp add: plain_path_def)
    from Cons.IH[OF pp a] show ?thesis
      unfolding JArr s json_at_arr by (simp add: i)
  qed (use Cons.prems in auto)
qed

lemma secret_replaced:
  assumes "plain_path lc p" and "isSecret lc k" and "k \<noteq> ''__proto__''"
    and "json_at v (p @ [Key k]) = Some x"
  shows "json_at (redactSecrets lc v) (p @ [Key k]) = Some REDACTED"
  using assms
proof (induction p arbitrary: v)
  case Nil
  then obtain kvs where v: "v = JObj kvs" and l: "map_of kvs k = Some x"
    by (cases v) (auto split: option.splits)
  show ?case
    unfolding v append_Nil json_at_obj using Nil.prems l by simp
next
  case (Cons s p)
  show ?case
  proof (cases v)
    case (JObj kvs)
    with Cons.prems obtain k' v' where s: "s = Key k'" and l: "map_of kvs k' = Some v'"
      and a: "json_at v' (p @ [Key k]) = Some x"
      by (cases s) (auto split: option.splits)
    from Cons.prems(1) s have k: "\<not> isSecret lc k'" "k' \<noteq> ''__proto__''" and pp: "plain_path lc p"
      by (simp_all add: plain_path_def)
    from Cons.IH[OF pp Cons.prems(2,3) a] show ?thesis
      unfolding JObj s append_Cons json_at_obj by (simp add: k l)
  next
    case (JArr xs)
    with Cons.prems obtain i where s: "s = Index i" and i: "i < length xs"
      and a: "json_at (xs ! i) (p @ [Key k]) = Some x"
      by (cases s) (auto split: if_splits)
    from Cons.prems(1) have pp: "plain_path lc p"
      by (simp add: plain_path_def)
    from Cons.IH[OF pp Cons.prems(2,3) a] show ?thesis
      unfolding JArr s append_Cons json_at_arr by (simp add: i)
  qed (use Cons.prems in auto)
qed

lemma nothing_added:
  "json_at (redactSecrets lc v) p = Some y \<Longrightarrow> json_at v p \<noteq> None"
proof (induction p arbitrary: v)
  case Nil
  then show ?case by simp
next
  case (Cons s p)
  show ?case
  proof (cases v)
    case (JObj kvs)
    show ?thesis
    proof (cases s)
      case (Key k)
      from Cons.prems obtain v' where l: "map_of kvs k = Some v'"
        and a: "json_at (if isSecret lc k then REDACTED else redactSecrets lc v') p = Some y"
        unfolding JObj Key json_at_obj by (auto split: if_splits option.splits)
      show ?thesis
      proof (cases "isSecret lc k")
        case True
        with a have "p = []" by (simp add: json_at_REDACTED split: if_splits)
        with l show ?thesis by (simp add: JObj Key)
      next
        case False
        with a Cons.IH[of v'] l show ?thesis by (simp add: JObj Key)
      qed
    next
      case (Index i)
      with Cons.prems JObj show ?thesis by simp
    qed
  next
    case (JArr xs)
    show ?thesis
    proof (cases s)
      case (Index i)
      with Cons.prems JArr Cons.IH[of "xs ! i"] show ?thesis
        by (auto split: if_splits)
    next
      case (Key k)
      with Cons.prems JArr show ?thesis by simp
    qed
  qed (use Cons.prems in auto)
qed

lemma secret_in_output:
  "redacted_ok lc w \<Longrightarrow> json_at w (p @ [Key k]) = Some y \<Longrightarrow> isSecret lc k \<Longrightarrow> y = REDACTED"
proof (induction p arbitrary: w)
  case Nil
  then obtain kvs where w: "w = JObj kvs" and l: "map_of kvs k = Some y"
    by (cases w) (auto split: option.splits)
  from l have "(k, y) \<in> set kvs" by (rule map_of_SomeD)
  with Nil.prems(1,3) show ?case
    by (auto simp: w list_all_iff)
next
  case (Cons s p)
  show ?case
  proof (cases w)
    case (JObj kvs)
    with Cons.prems(2) obtain k' v' where s: "s = Key k'" and l: "map_of kvs k' = Some v'"
      and a: "json_at v' (p @ [Key k]) = Some y"
      by (cases s) (auto split: option.splits)
    from l have m: "(k', v') \<in> set kvs" by (rule map_of_SomeD)
    show ?thesis
    proof (cases "isSecret lc k'")
      case True
      with m Cons.prems(1) have "v' = REDACTED"
        by (auto simp: JObj list_all_iff)
      with a show ?thesis by (simp add: json_at_REDACTED)
    next
      case False
      with m Cons.prems(1) have "redacted_ok lc v'"
        by (auto simp: JObj list_all_iff)
      from Cons.IH[OF this a Cons.prems(3)] show ?thesis .
    qed
  next
    case (JArr xs)
    with Cons.prems(2) obtain i where s: "s = Index i" and i: "i < length xs"
      and a: "json_at (xs ! i) (p @ [Key k]) = Some y"
      by (cases s) (auto split: if_splits)
    from Cons.prems(1) i have "redacted_ok lc (xs ! i)"
      by (simp add: JArr list_all_length)
    from Cons.IH[OF this a Cons.prems(3)] show ?thesis .
  qed (use Cons.prems in auto)
qed

text \<open>
  Claim C8, as the code has it. Let \<open>toLowerCase\<close> be any lower-casing of strings, and let
  the logger be given any record. (1) The redacted record satisfies \<open>redacted_ok\<close>, and (2)
  every key in it, at any depth, whose lower-cased name contains one of the lower-cased
  entries of \<open>SECRET_FIELDS\<close> carries the sentinel \<open>[REDACTED]\<close>. (3) A key of the input with
  such a name, reached through nested objects and arrays by a path of keys that are not
  themselves secret, is a key of the redacted record and has the sentinel there. (4) What
  the input holds at a path of keys that are not secret is emitted at the same path, itself
  redacted. (5) The redacted record has no place that the input lacks. The configured
  entries are those of \<open>SECRET_FIELDS\<close>; no entry covers a webhook signature.
\<close>

theorem redactSecrets_redacts:
  "redacted_ok toLowerCase (redactSecrets toLowerCase v)
   \<and> (json_at (redactSecrets toLowerCase v) (q @ [Key k]) = Some y \<and> isSecret toLowerCase k
        \<longrightarrow> y = REDACTED)
   \<and> (plain_path toLowerCase p \<and> isSecret toLowerCase k \<and> k \<noteq> ''__proto__'' \<and>
      json_at v (p @ [Key k]) = Some x
        \<longrightarrow> json_at (redactSecrets toLowerCase v) (p @ [Key k]) = Some REDACTED)
   \<and> (plain_path toLowerCase p \<and> json_at v p = Some x
        \<longrightarrow> json_at (redactSecrets toLowerCase v) p = Some (redactSecrets toLowerCase x))
   \<and> (json_at (redactSecrets toLowerCase v) q = Some y \<longrightarrow> json_at v q \<noteq> None)"
  using redact_ok[of toLowerCase v]
    secret_in_output[OF redact_ok, of toLowerCase v q k y]
    secret_replaced[of toLowerCase p k v x]
    plain_kept[of toLowerCase p v x]
    nothing_added[of toLowerCase v q y]
  by blast

theorem redactSecrets_redacts_witness:
  "redactSecrets ascii_toLowerCase
     (JObj [(''Authorization'', JStr ''Bearer abc''),
            (''meta'', JArr [JObj [(''user_password'', JStr ''hunter2''), (''n'', JNum 1)]])])
     = JObj [(''Authorization'', JStr ''[REDACTED]''),
            (''meta'', JArr [JObj [(''user_password'', JStr ''[REDACTED]''), (''n'', JNum 1)]])]
   \<and> json_at (redactSecrets ascii_toLowerCase
       (JObj [(''Authorization'', JStr ''Bearer abc''),
              (''meta'', JArr [JObj [(''user_password'', JStr ''hunter2''), (''n'', JNum 1)]])]))
       ([Key ''meta'', Index 0] @ [Key ''user_password'']) = Some REDACTED
   \<and> json_at (redactSecrets ascii_toLowerCase
       (JObj [(''Authorization'', JStr ''Bearer abc''),
              (''meta'', JArr [JObj [(''user_password'', JStr ''hunter2''), (''n'', JNum 1)]])]))
       [Key ''meta'', Index 0] = Some (JObj [(''user_password'', JStr ''[REDACTED]''), (''n'', JNum 1)])"
proof -
  let ?v = "JObj [(''Authorization'', JStr ''Bearer abc''),
            (''meta'', JArr [JObj [(''user_password'', JStr ''hunter2''), (''n'', JNum 1)]])]"
  let ?x = "JObj [(''user_password'', JStr ''hunter2''), (''n'', JNum 1)]"
  have e: "redactSecrets ascii_toLowerCase ?v
     = JObj [(''Authorization'', JStr ''[REDACTED]''),
            (''meta'', JArr [JObj [(''user_password'', JStr ''[REDACTED]''), (''n'', JNum 1)]])]"
    by code_simp
  have p: "plain_path ascii_toLowerCase [Key ''meta'', Index 0]"
    by code_simp
  have s: "isSecret ascii_toLowerCase ''user_password''" "''user_password'' \<noteq> ''__proto__''"
    by code_simp+
  have a: "json_at ?v ([Key ''meta'', Index 0] @ [Key ''user_password'']) = Some (JStr ''hunter2'')"
      "json_at ?v [Key ''meta'', Index 0] = Some ?x"
    by code_simp+
  have r: "redactSecrets ascii_toLowerCase ?x
     = JObj [(''user_password'', JStr ''[REDACTED]''), (''n'', JNum 1)]"
    by code_simp
  note t1 = redactSecrets_redacts[of ascii_toLowerCase ?v "[]" "''user_password''" REDACTED
      "[Key ''meta'', Index 0]" "JStr ''hunter2''"]
  note t2 = redactSecrets_redacts[of ascii_toLowerCase ?v "[]" "''user_password''" REDACTED
      "[Key ''meta'', Index 0]" ?x]
  from t1 p s a(1)
  have b: "json_at (redactSecrets ascii_toLowerCase ?v)
      ([Key ''meta'', Index 0] @ [Key ''user_password'']) = Some REDACTED"
    by blast
  from t2 p a(2)
  have c: "json_at (redactSecrets ascii_toLowerCase ?v) [Key ''meta'', Index 0]
      = Some (redactSecrets ascii_toLowerCase ?x)"
    by blast
  from e b c r show ?thesis
    by simp
qed

text \<open>
  Claim C8 as stated fails: the header that carries the webhook signature is emitted with its
  value.
\<close>

theorem signature_not_redacted:
  "redactSecrets ascii_toLowerCase (JObj [(''x-razorpay-signature'', JStr ''9f86d081884c7d65'')])
     = JObj [(''x-razorpay-signature'', JStr ''9f86d081884c7d65'')]"
  by code_simp

section \<open>The container engine adapter\<close>

text \<open>
  Claim C10. When the engine answers 304 (the container is already in the requested state),
  \<open>startContainer\<close> and \<open>stopContainer\<close> return \<open>true\<close>; when it answers 404 (no such
  container) they throw \<open>Container not found\<close>, whether the 404 comes from the inspection or
  from the start itself; \<open>removeContainer\<close> returns \<open>true\<close> on 404.
\<close>

theorem adapter_status_codes:
  "(inspect d c = Inr info \<and> start d c = Inl e \<and> statusCode e = Some 304
      \<longrightarrow> startContainer d c = Inr True)
   \<and> (stop d c t = Inl e \<and> statusCode e = Some 304 \<longrightarrow> stopContainer d c t = Inr True)
   \<and> (inspect d c = Inl e \<and> statusCode e = Some 404
      \<longrightarrow> startContainer d c = Inl ''Container not found'')
   \<and> (inspect d c = Inr info \<and> start d c = Inl e \<and> statusCode e = Some 404
      \<longrightarrow> startContainer d c = Inl ''Container not found'')
   \<and> (stop d c t = Inl e \<and> statusCode e = Some 404
      \<longrightarrow> stopContainer d c t = Inl ''Container not found'')
   \<and> (remove d c f = Inl e \<and> statusCode e = Some 404 \<longrightarrow> removeContainer d c f = Inr True)"
  by (simp add: startContainer_def startContainer_catch_def stopContainer_def removeContainer_def)

theorem adapter_status_codes_witness:
  "startContainer docker_already ''c1'' = Inr True
   \<and> stopContainer docker_already ''c1'' 30 = Inr True
   \<and> startContainer docker_absent ''c1'' = Inl ''Container not found''
   \<and> stopContainer docker_absent ''c1'' 30 = Inl ''Container not found''
   \<and> removeContainer docker_absent ''c1'' True = Inr True"
  using adapter_status_codes[of docker_already "''c1''"
          "\<lparr>Networks = [(''openclaw_internal'', ''172.18.0.2'')]\<rparr>"
          "\<lparr>statusCode = Some 304, message = ''container already started''\<rparr>" 30 True]
        adapter_status_codes[of docker_already "''c1''"
          "\<lparr>Networks = [(''openclaw_internal'', ''172.18.0.2'')]\<rparr>"
          "\<lparr>statusCode = Some 304, message = ''container already stopped''\<rparr>" 30 True]
        adapter_status_codes[of docker_absent "''c1''"
          "\<lparr>Networks = [(''openclaw_internal'', ''172.18.0.2'')]\<rparr>"
          "\<lparr>statusCode = Some 404, message = ''no such container''\<rparr>" 30 True]
  by (simp add: docker_already_def docker_absent_def)

section \<open>GET /api/payments/subscription\<close>

text \<open>
  Claim C6, evaluated on the code. Whatever subscriptions the caller has, and also when the
  caller has none, the handler answers 200 with no state, no plan and no period, with
  \<open>is_active\<close> false and \<open>days_remaining\<close> 0; it never answers 404.
\<close>

theorem get_subscription_always_200:
  "get_subscription db now userId =
     SubscriptionOk \<lparr>view_status = None, view_plan = None, view_current_period_start = None,
        view_current_period_end = None, workspace_limit = 5, view_cancelled_at = None,
        is_active = False, days_remaining = 0\<rparr>"
  by (simp add: get_subscription_def js_not_array_def array_property_def)

section \<open>Workspace lifecycle routes\<close>

lemma hasActive_iff:
  "hasActive db now userId \<longleftrightarrow>
     (\<exists>s \<in> set (subscriptions db). sub_user_id s = userId \<and> status s = ''active'' \<and>
        current_period_end s > now)"
proof -
  let ?P = "\<lambda>s. sub_user_id s = userId \<and> status s = ''active'' \<and> current_period_end s > now"
  let ?xs = "sort_key (\<lambda>s. - sub_created_at s) (filter ?P (subscriptions db))"
  have "hasActive db now userId \<longleftrightarrow> ?xs \<noteq> []"
    by (simp add: hasActive_def findActiveByUserId_def split: list.splits)
  also have "\<dots> \<longleftrightarrow> set ?xs \<noteq> {}" by (simp only: set_empty)
  also have "\<dots> \<longleftrightarrow> (\<exists>s \<in> set (subscriptions db). ?P s)" by auto
  finally show ?thesis .
qed

text \<open>
  Claim C5, as the code has it. For an authenticated caller without an entitled
  subscription, the creation route answers 403, and so does the start route when the id in
  the path has the syntax of a UUID; in every case the database is left as it was and no
  call to the container manager is made. Hence a start that reached the container manager or
  changed a record was made by the owner of the workspace, who had an active subscription
  at the check; a creation changes the database only for an entitled caller, and never calls
  the container manager. Entitled means: some subscription row of the caller has state
  \<open>active\<close> and a period end after the current time.
\<close>

theorem entitlement_gate:
  "(\<not> hasActive db now userId \<longrightarrow>
      (pg_uuid ev (params_id req) \<longrightarrow>
         (\<exists>msg. start_route ev d now db userId req = (Response 403 msg, db, [])))
      \<and> (\<exists>r. start_route ev d now db userId req = (r, db, []))
      \<and> (\<exists>msg. create_route ev now db userId creq = (Response 403 msg, db, [])))
   \<and> (snd (snd (start_route ev d now db userId req)) \<noteq> [] \<or>
        fst (snd (start_route ev d now db userId req)) \<noteq> db
      \<longrightarrow> isOwner (pg_uuid ev) db (params_id req) userId = Inr True \<and> hasActive db now userId)
   \<and> (fst (snd (create_route ev now db userId creq)) \<noteq> db \<longrightarrow> hasActive db now userId)
   \<and> snd (snd (create_route ev now db userId creq)) = []
   \<and> (hasActive db now userId \<longleftrightarrow>
        (\<exists>s \<in> set (subscriptions db). sub_user_id s = userId \<and> status s = ''active'' \<and>
           current_period_end s > now))"
proof -
  have a: "\<not> hasActive db now userId \<Longrightarrow> pg_uuid ev (params_id req) \<Longrightarrow>
      \<exists>msg. start_route ev d now db userId req = (Response 403 msg, db, [])"
    by (simp add: start_route_def checkOwnership_def isOwner_def requireSubscription_def)
  have a': "\<not> hasActive db now userId \<Longrightarrow>
      \<exists>r. start_route ev d now db userId req = (r, db, [])"
    by (simp add: start_route_def checkOwnership_def isOwner_def requireSubscription_def)
  have b: "\<not> hasActive db now userId \<Longrightarrow>
      \<exists>msg. create_route ev now db userId creq = (Response 403 msg, db, [])"
    by (simp add: create_route_def requireSubscription_def)
  have c: "snd (snd (start_route ev d now db userId req)) \<noteq> [] \<or>
        fst (snd (start_route ev d now db userId req)) \<noteq> db
      \<Longrightarrow> isOwner (pg_uuid ev) db (params_id req) userId = Inr True \<and> hasActive db now userId"
    by (auto simp: start_route_def checkOwnership_def requireSubscription_def
             split: if_splits sum.splits)
  have d: "fst (snd (create_route ev now db userId creq)) \<noteq> db \<Longrightarrow> hasActive db now userId"
    using b by fastforce
  have e: "snd (snd (create_route ev now db userId creq)) = []"
    by (simp add: create_route_def requireSubscription_def split: sum.splits prod.splits)
  from a a' b c d e hasActive_iff[of db now userId] show ?thesis by blast
qed

theorem entitlement_gate_witness:
  "\<not> hasActive db_unentitled 1000 user1
   \<and> pg_uuid env0 (params_id start_req)
   \<and> start_route env0 docker_fine 1000 db_unentitled user1 start_req
       = (Response 403 ''Subscription required'', db_unentitled, [])
   \<and> create_route env0 1000 db_unentitled user1 create_req
       = (Response 403 ''Subscription required'', db_unentitled, [])
   \<and> snd (snd (start_route env0 docker_fine 1000 db_never_started user1 start_req))
       = [CreateContainer ws1, StartContainer ''c1'']
   \<and> isOwner (pg_uuid env0) db_never_started ws1 user1 = Inr True
   \<and> hasActive db_never_started 1000 user1"
proof -
  have n: "\<not> hasActive db_unentitled 1000 user1"
    by code_simp
  have u: "pg_uuid env0 (params_id start_req)"
    by code_simp
  have s: "start_route env0 docker_fine 1000 db_unentitled user1 start_req
             = (Response 403 ''Subscription required'', db_unentitled, [])"
    by code_simp
  have c: "create_route env0 1000 db_unentitled user1 create_req
             = (Response 403 ''Subscription required'', db_unentitled, [])"
    by code_simp
  have t: "snd (snd (start_route env0 docker_fine 1000 db_never_started user1 start_req))
             = [CreateContainer ws1, StartContainer ''c1'']"
    by code_simp
  have p: "params_id start_req = ws1"
    by (simp add: start_req_def)
  show ?thesis
    using n u s c t p
      entitlement_gate[of db_unentitled 1000 user1 env0 start_req docker_fine create_req]
      entitlement_gate[of db_never_started 1000 user1 env0 start_req docker_fine create_req]
    by simp
qed

text \<open>
  Claim C5 as stated fails: a start request of a caller without an entitled subscription
  whose path holds an id that is no UUID is not answered 403. The ownership query raises,
  and the middleware sends nothing.
\<close>

theorem start_malformed_id_unanswered:
  "\<not> hasActive db_unentitled 1000 user1
   \<and> \<not> pg_uuid env0 (params_id start_req_malformed)
   \<and> start_route env0 docker_fine 1000 db_unentitled user1 start_req_malformed
       = (Unanswered, db_unentitled, [])"
  by code_simp

text \<open>
  Claim C7, as the code has it. For an owned workspace of an entitled caller, with a
  well-formed id and a request that the rate limiter admits: when the workspace is in state
  \<open>stopped\<close> and has an engine handle, the stop route answers 200 and changes nothing; when
  it has no engine handle, the route answers 400 \<open>Invalid operation\<close>, and changes nothing
  either.
\<close>

theorem stop_already_stopped:
  assumes "isOwner (pg_uuid ev) db (params_id req) userId = Inr True"
      and "hasActive db now userId"
      and "\<not> rate_limited req"
      and "isUUID ev (params_id req)"
      and "ws_findById db (params_id req) = Some ws"
      and "container_status ws = ''stopped''"
  shows "stop_route ev d now db userId req =
           (if truthy (container_id ws) then (Response 200 ''Workspace already stopped'', db, [])
            else (Response 400 ''Invalid operation'', db, []))"
  using assms
  by (auto simp: stop_route_def stop_handler_def checkOwnership_def requireSubscription_def
        containerRateLimiter_def split: option.splits)

theorem stop_already_stopped_witness:
  "stop_route env0 docker_fine 1000 db_stopped user1 start_req
     = (Response 200 ''Workspace already stopped'', db_stopped, [])"
proof -
  have h: "isOwner (pg_uuid env0) db_stopped (params_id start_req) user1 = Inr True
    \<and> hasActive db_stopped 1000 user1
    \<and> \<not> rate_limited start_req
    \<and> isUUID env0 (params_id start_req)
    \<and> ws_findById db_stopped (params_id start_req) = Some (ws_row (Some ''c1'') ''stopped'')
    \<and> container_status (ws_row (Some ''c1'') ''stopped'') = ''stopped''
    \<and> truthy (container_id (ws_row (Some ''c1'') ''stopped''))"
    by code_simp
  show ?thesis
    using h stop_already_stopped[of env0 db_stopped start_req user1 1000
        "ws_row (Some ''c1'') ''stopped''" docker_fine]
    by simp
qed

text \<open>
  Claim C7 as stated fails for a workspace whose container was never created: the stop route
  answers 400.
\<close>

theorem stop_without_container_rejected:
  "stop_route env0 docker_fine 1000 db_never_started user1 start_req
     = (Response 400 ''Invalid operation'', db_never_started, [])"
  by code_simp

section \<open>The reverse proxy\<close>





lemma proxy_route_Inr:
  assumes "proxy_route ev d now db req = Inr fw"
  shows "\<exists>ws. authenticateApiKey ev d now db req = Inr (ws, fw_target fw) \<and>
           fw_path fw = proxyReqPathResolver ws req \<and>
           (fw_opts fw, fw_body fw) =
             sendProxyRequest ev
               (prepareProxyReq (proxyReqOptDecorator (createRequestOptions req))
                  (bodyContent ev req))
               (bodyContent ev req)"
  using assms
  by (auto simp: proxy_route_def split: sum.splits prod.splits)

lemma sent_headers:
  assumes "(reqOpt, sent) =
             sendProxyRequest ev
               (prepareProxyReq (proxyReqOptDecorator (createRequestOptions req)) content) content"
  shows "opt_headers reqOpt =
           (\<lambda>k. if k = ''x-api-key'' \<or> k = ''host'' then None
                 else if k = ''connection'' then Some ''close''
                 else if k = ''content-length'' then Some (decimal (int (length sent)))
                 else if k = ''Accept-Charset'' then Some ''utf-8''
                 else req_headers req k)"
    and "opt_method reqOpt = req_method req"
    and "req_headers req ''content-type'' \<noteq> Some ''x-www-form-urlencoded'' \<Longrightarrow>
         req_headers req ''content-type'' \<noteq> Some ''application/x-www-form-urlencoded'' \<Longrightarrow>
         sent = content"
  using assms
  by (auto simp: sendProxyRequest_def prepareProxyReq_def proxyReqOptDecorator_def
        createRequestOptions_def reqHeaders_def is_form_post_def Let_def fun_eq_iff
        split: if_splits)

text \<open>
  Claim C4, as the code has it. In every request that the proxy forwards, the header
  dictionary has no entry \<open>x-api-key\<close>. The client's headers other than \<open>x-api-key\<close>, \<open>host\<close>,
  \<open>connection\<close> and \<open>content-length\<close> are passed on as they came, and so is the method; the
  proxy library drops \<open>host\<close>, sets \<open>connection\<close> to \<open>close\<close>, \<open>content-length\<close> to the length
  of the body it sends and \<open>Accept-Charset\<close> to \<open>utf-8\<close>. Unless the request is a form post,
  the body it sends is the serialisation of \<open>req.body\<close> when a body parser has set it, and
  the raw body otherwise. As Node delivers header names in lower case, no forwarded name
  lower-cases to \<open>x-api-key\<close>.
\<close>

theorem credential_header_stripped:
  assumes "proxy_route ev d now db req = Inr fw"
  shows "opt_headers (fw_opts fw) ''x-api-key'' = None
     \<and> (\<forall>k. k \<noteq> ''x-api-key'' \<and> k \<noteq> ''host'' \<and> k \<noteq> ''connection'' \<and>
            k \<noteq> ''content-length'' \<and> k \<noteq> ''Accept-Charset''
          \<longrightarrow> opt_headers (fw_opts fw) k = req_headers req k)
     \<and> opt_headers (fw_opts fw) ''host'' = None
     \<and> opt_headers (fw_opts fw) ''connection'' = Some ''close''
     \<and> opt_headers (fw_opts fw) ''content-length'' = Some (decimal (int (length (fw_body fw))))
     \<and> opt_headers (fw_opts fw) ''Accept-Charset'' = Some ''utf-8''
     \<and> opt_method (fw_opts fw) = req_method req
     \<and> (req_headers req ''content-type'' \<noteq> Some ''x-www-form-urlencoded'' \<and>
        req_headers req ''content-type'' \<noteq> Some ''application/x-www-form-urlencoded''
          \<longrightarrow> fw_body fw = (case req_body req of
                              Some v \<Rightarrow> JSON_stringify ev v
                            | None \<Rightarrow> raw_body req))
     \<and> (lowercase_names toLowerCase (req_headers req) \<and>
        toLowerCase ''connection'' = ''connection'' \<and>
        toLowerCase ''content-length'' = ''content-length'' \<and>
        toLowerCase ''Accept-Charset'' = ''accept-charset''
          \<longrightarrow> (\<forall>k \<in> dom (opt_headers (fw_opts fw)). toLowerCase k \<noteq> ''x-api-key''))"
proof -
  from proxy_route_Inr[OF assms] have
    s: "(fw_opts fw, fw_body fw) =
             sendProxyRequest ev
               (prepareProxyReq (proxyReqOptDecorator (createRequestOptions req))
                  (bodyContent ev req))
               (bodyContent ev req)"
    by blast
  note h = sent_headers(1)[OF s]
  have m: "opt_method (fw_opts fw) = req_method req"
    by (rule sent_headers(2)[OF s])
  have b: "req_headers req ''content-type'' \<noteq> Some ''x-www-form-urlencoded'' \<and>
        req_headers req ''content-type'' \<noteq> Some ''application/x-www-form-urlencoded''
          \<longrightarrow> fw_body fw = (case req_body req of
                              Some v \<Rightarrow> JSON_stringify ev v
                            | None \<Rightarrow> raw_body req)"
    using sent_headers(3)[OF s] by (simp add: bodyContent_def)
  have l: "lowercase_names toLowerCase (req_headers req) \<and>
        toLowerCase ''connection'' = ''connection'' \<and>
        toLowerCase ''content-length'' = ''content-length'' \<and>
        toLowerCase ''Accept-Charset'' = ''accept-charset''
          \<longrightarrow> (\<forall>k \<in> dom (opt_headers (fw_opts fw)). toLowerCase k \<noteq> ''x-api-key'')"
    unfolding h lowercase_names_def by (auto split: if_splits) (metis domI)
  from m b l show ?thesis
    by (simp add: h)
qed

theorem credential_header_stripped_witness:
  "req_headers proxy_post ''x-api-key'' = Some ''k1''
   \<and> opt_headers (fw_opts (projr (proxy_route env0 docker_fine 1000 db_running proxy_post)))
       ''x-api-key'' = None
   \<and> opt_headers (fw_opts (projr (proxy_route env0 docker_fine 1000 db_running proxy_post)))
       ''content-type'' = Some ''application/json''
   \<and> opt_headers (fw_opts (projr (proxy_route env0 docker_fine 1000 db_running proxy_post)))
       ''connection'' = Some ''close''
   \<and> opt_headers (fw_opts (projr (proxy_route env0 docker_fine 1000 db_running proxy_post)))
       ''content-length'' = Some ''5''
   \<and> opt_method (fw_opts (projr (proxy_route env0 docker_fine 1000 db_running proxy_post)))
       = ''POST''
   \<and> fw_body (projr (proxy_route env0 docker_fine 1000 db_running proxy_post)) = ''[1,2]''
   \<and> ascii_toLowerCase ''content-type'' \<noteq> ''x-api-key''"
proof -
  let ?fw = "projr (proxy_route env0 docker_fine 1000 db_running proxy_post)"
  have "\<not> isl (proxy_route env0 docker_fine 1000 db_running proxy_post)"
    by code_simp
  then have e: "proxy_route env0 docker_fine 1000 db_running proxy_post = Inr ?fw"
    by simp
  have k: "req_headers proxy_post
             = [''x-api-key'' \<mapsto> ''k1'', ''host'' \<mapsto> ''api.example.com'',
                ''connection'' \<mapsto> ''keep-alive'', ''content-length'' \<mapsto> ''6'',
                ''content-type'' \<mapsto> ''application/json'']"
      "req_method proxy_post = ''POST''"
      "req_body proxy_post = Some (JArr [JNum 1, JNum 2])"
    by (simp_all add: proxy_post_def)
  have j: "JSON_stringify env0 (JArr [JNum 1, JNum 2]) = ''[1,2]''"
      "decimal (int (length ''[1,2]'')) = ''5''"
    by code_simp+
  have lc: "ascii_toLowerCase ''x-api-key'' = ''x-api-key''"
      "ascii_toLowerCase ''host'' = ''host''"
      "ascii_toLowerCase ''connection'' = ''connection''"
      "ascii_toLowerCase ''content-length'' = ''content-length''"
      "ascii_toLowerCase ''content-type'' = ''content-type''"
      "ascii_toLowerCase ''Accept-Charset'' = ''accept-charset''"
    by code_simp+
  have ln: "lowercase_names ascii_toLowerCase (req_headers proxy_post)"
    unfolding lowercase_names_def k(1) using lc by auto
  note t = credential_header_stripped[OF e, of ascii_toLowerCase]
  from t have h1: "opt_headers (fw_opts ?fw) ''x-api-key'' = None"
    by blast
  from t have "opt_headers (fw_opts ?fw) ''content-type'' = req_headers proxy_post ''content-type''"
    by simp
  then have h2: "opt_headers (fw_opts ?fw) ''content-type'' = Some ''application/json''"
    by (simp add: k(1))
  from t have h3: "opt_headers (fw_opts ?fw) ''connection'' = Some ''close''"
    by blast
  from t k(1) have "fw_body ?fw =
      (case req_body proxy_post of Some v \<Rightarrow> JSON_stringify env0 v | None \<Rightarrow> raw_body proxy_post)"
    by simp
  then have h4: "fw_body ?fw = ''[1,2]''"
    by (simp add: k(3) j(1))
  from t have "opt_headers (fw_opts ?fw) ''content-length''
      = Some (decimal (int (length (fw_body ?fw))))"
    by blast
  then have h5: "opt_headers (fw_opts ?fw) ''content-length'' = Some ''5''"
    using j(2) by (simp only: h4)
  from t have h6: "opt_method (fw_opts ?fw) = ''POST''"
    by (simp add: k(2))
  from h2 have "''content-type'' \<in> dom (opt_headers (fw_opts ?fw))"
    by auto
  with t ln lc have h7: "ascii_toLowerCase ''content-type'' \<noteq> ''x-api-key''"
    by blast
  from h1 h2 h3 h4 h5 h6 h7 show ?thesis
    by (simp add: k(1))
qed

text \<open>
  Claim C4 as stated fails: not every other header and not the body are forwarded as they
  came. The \<open>host\<close> header of the client is dropped, its \<open>connection\<close> header is replaced,
  and the body is sent as the serialisation of what the body parser made of it.
\<close>

theorem proxy_rewrites_request:
  "\<not> isl (proxy_route env0 docker_fine 1000 db_running proxy_post)
   \<and> req_headers proxy_post ''host'' = Some ''api.example.com''
   \<and> opt_headers (fw_opts (projr (proxy_route env0 docker_fine 1000 db_running proxy_post)))
       ''host'' = None
   \<and> req_headers proxy_post ''connection'' = Some ''keep-alive''
   \<and> opt_headers (fw_opts (projr (proxy_route env0 docker_fine 1000 db_running proxy_post)))
       ''connection'' = Some ''close''
   \<and> raw_body proxy_post = ''[1, 2]''
   \<and> fw_body (projr (proxy_route env0 docker_fine 1000 db_running proxy_post)) = ''[1,2]''"
  by code_simp




section \<open>The subscription state machine\<close>












lemma locked_in_table:
  "getAndLockSubscription db r = Some sub \<Longrightarrow> sub \<in> set (subscriptions db)"
  by (auto simp: getAndLockSubscription_def find_Some_iff split: option.splits)


lemma locked_found:
  assumes "getAndLockSubscription db r = Some sub"
  shows "find (\<lambda>s. sub_id s = sub_id sub) (subscriptions db) \<noteq> None"
  using locked_in_table[OF assms] by (auto simp: find_None_iff)




























section \<open>The webhook endpoint\<close>

lemma first_byte_ascii: "(of_char c :: nat) \<le> 0x7F \<Longrightarrow> first_byte c = ([c], 0, 0x80, 0xBF, [])"
  by (simp add: first_byte_def)

lemma utf8_ascii: "\<forall>c \<in> set bytes. (of_char c :: nat) \<le> 0x7F \<Longrightarrow> toString_utf8 bytes = bytes"
  unfolding toString_utf8_def
  by (induction bytes) (simp_all add: first_byte_ascii)

lemma compare_all_result:
  "length a = length b \<Longrightarrow> compare_all a b = (a = b, length a)"
  by (induction a b rule: compare_all.induct) auto

lemma signature_check_result:
  "signature_check h key sig rawBody =
     (if length sig = length (h key rawBody) then (sig = h key rawBody, length sig)
      else (False, 0))"
  by (simp add: signature_check_def timingSafeEqual_def compare_all_result Let_def)

lemma verifyWebhookSignature_iff:
  "verifyWebhookSignature h key sig rawBody \<longleftrightarrow> sig = h key rawBody"
  by (auto simp: verifyWebhookSignature_def signature_check_result)

text \<open>
  Claim C3, as the code has it. Let the body of a request have arrived as a raw Buffer.
  (1) When the signature header is absent or empty, or differs from the hex MAC, under
  the webhook secret, of the text that \<open>toString('utf8')\<close> makes of the body, the request
  is answered 401 and the database is unchanged. (2) For a body that this decoding leaves
  as it is, that is the MAC of the raw body; (3) every body of ASCII bytes is left as it
  is. (4) The comparison of the signature with the expected MAC looks at as many pairs of
  bytes as the signature has bytes when the two have the same length, and at none
  otherwise, whatever the bytes are; it finds them equal exactly when the two are equal.
\<close>

theorem bad_signature_rejected:
  assumes "body req = BodyBuffer bytes"
  shows "(\<not> truthy (signature req) \<or>
          signature req \<noteq>
            Some (hmac_sha256_hex wenv (WEBHOOK_SECRET wenv) (toString_utf8 bytes))
          \<longrightarrow> (\<exists>msg. razorpay_webhook wenv d now db req = (Response 401 msg, db)))
     \<and> (toString_utf8 bytes = bytes \<and>
        (\<not> truthy (signature req) \<or>
         signature req \<noteq> Some (hmac_sha256_hex wenv (WEBHOOK_SECRET wenv) bytes))
          \<longrightarrow> (\<exists>msg. razorpay_webhook wenv d now db req = (Response 401 msg, db)))
     \<and> ((\<forall>c \<in> set bytes. (of_char c :: nat) \<le> 0x7F) \<longrightarrow> toString_utf8 bytes = bytes)
     \<and> signature_check (hmac_sha256_hex wenv) (WEBHOOK_SECRET wenv) sig (toString_utf8 bytes) =
         (if length sig =
               length (hmac_sha256_hex wenv (WEBHOOK_SECRET wenv) (toString_utf8 bytes))
          then (sig = hmac_sha256_hex wenv (WEBHOOK_SECRET wenv) (toString_utf8 bytes),
                length sig)
          else (False, 0))"
proof -
  have a: "\<exists>msg. razorpay_webhook wenv d now db req = (Response 401 msg, db)"
    if "\<not> truthy (signature req) \<or>
        signature req \<noteq> Some (hmac_sha256_hex wenv (WEBHOOK_SECRET wenv) (toString_utf8 bytes))"
    using that assms
    by (auto simp: razorpay_webhook_def verifyWebhookSignature_iff Let_def split: option.splits)
  then have b: "\<exists>msg. razorpay_webhook wenv d now db req = (Response 401 msg, db)"
    if "toString_utf8 bytes = bytes"
      and "\<not> truthy (signature req) \<or>
        signature req \<noteq> Some (hmac_sha256_hex wenv (WEBHOOK_SECRET wenv) bytes)"
    using that by simp
  from a b utf8_ascii[of bytes]
    signature_check_result[of "hmac_sha256_hex wenv" "WEBHOOK_SECRET wenv" sig "toString_utf8 bytes"]
  show ?thesis
    by blast
qed

theorem bad_signature_rejected_witness:
  "body tampered = BodyBuffer ''activated sub_2''
   \<and> toString_utf8 ''activated sub_2'' = ''activated sub_2''
   \<and> signature tampered \<noteq> Some (hmac_sha256_hex wenv0 (WEBHOOK_SECRET wenv0) ''activated sub_2'')
   \<and> razorpay_webhook wenv0 docker_fine 1000 db_pending tampered
       = (Response 401 ''Invalid signature'', db_pending)
   \<and> signature_check (hmac_sha256_hex wenv0) (WEBHOOK_SECRET wenv0)
        ''mac:whsec_test:activated sub_1'' ''activated sub_2'' = (False, 30)"
proof -
  have b: "body tampered = BodyBuffer ''activated sub_2''"
    by (simp add: tampered_def)
  have asc: "list_all (\<lambda>c. (of_char c :: nat) \<le> 0x7F) ''activated sub_2''"
    by code_simp
  have n: "signature tampered \<noteq> Some (hmac_sha256_hex wenv0 (WEBHOOK_SECRET wenv0) ''activated sub_2'')"
    by code_simp
  have r: "response_text (fst (razorpay_webhook wenv0 docker_fine 1000 db_pending tampered))
             = ''Invalid signature''"
    by code_simp
  have l: "length ''mac:whsec_test:activated sub_1''
      = length (hmac_sha256_hex wenv0 (WEBHOOK_SECRET wenv0) ''activated sub_2'')"
      "''mac:whsec_test:activated sub_1''
      \<noteq> hmac_sha256_hex wenv0 (WEBHOOK_SECRET wenv0) ''activated sub_2''"
      "length ''mac:whsec_test:activated sub_1'' = 30"
    by code_simp+
  note t = bad_signature_rejected[OF b, of wenv0 docker_fine 1000 db_pending
      "''mac:whsec_test:activated sub_1''"]
  from t asc have u: "toString_utf8 ''activated sub_2'' = ''activated sub_2''"
    by (simp add: list_all_iff)
  from t u n obtain msg where
    m: "razorpay_webhook wenv0 docker_fine 1000 db_pending tampered = (Response 401 msg, db_pending)"
    by auto
  with r have m': "razorpay_webhook wenv0 docker_fine 1000 db_pending tampered
      = (Response 401 ''Invalid signature'', db_pending)"
    by simp
  from t have "signature_check (hmac_sha256_hex wenv0) (WEBHOOK_SECRET wenv0)
        ''mac:whsec_test:activated sub_1'' (toString_utf8 ''activated sub_2'') =
         (if length ''mac:whsec_test:activated sub_1'' =
               length (hmac_sha256_hex wenv0 (WEBHOOK_SECRET wenv0) (toString_utf8 ''activated sub_2''))
          then (''mac:whsec_test:activated sub_1''
                  = hmac_sha256_hex wenv0 (WEBHOOK_SECRET wenv0) (toString_utf8 ''activated sub_2''),
                length ''mac:whsec_test:activated sub_1'')
          else (False, 0))"
    by blast
  then have s: "signature_check (hmac_sha256_hex wenv0) (WEBHOOK_SECRET wenv0)
        ''mac:whsec_test:activated sub_1'' ''activated sub_2'' = (False, 30)"
    unfolding u using l by simp
  from b u n m' s show ?thesis
    by blast
qed

text \<open>
  Claim C3 as stated fails. A request without a signature whose body did not arrive as a raw
  Buffer is answered 400, not 401. And a request whose body holds a byte that is no UTF-8,
  with a signature that differs from the MAC of the raw body, is accepted and processed when
  the signature is the MAC of the decoded text.
\<close>

theorem signature_check_gaps:
  "razorpay_webhook wenv0 docker_fine 1000 db_pending \<lparr>signature = None, body = BodyNotBuffer\<rparr>
     = (Response 400 ''Body must be raw'', db_pending)
   \<and> body signed_decoded = BodyBuffer ill_formed_body
   \<and> signature signed_decoded
       \<noteq> Some (hmac_sha256_hex wenv0 (WEBHOOK_SECRET wenv0) ill_formed_body)
   \<and> fst (razorpay_webhook wenv0 docker_fine 1000 db_pending signed_decoded)
       = Response 200 ''success''
   \<and> status_of db_pending ''s1'' = Some ''pending''
   \<and> status_of (snd (razorpay_webhook wenv0 docker_fine 1000 db_pending signed_decoded)) ''s1''
       = Some ''active''"
  by code_simp

text \<open>
  A request with a valid signature whose event id is in the ledger is answered with success
  and changes nothing.
\<close>

lemma duplicate_is_noop:
  assumes "body req = BodyBuffer bytes"
    and "signature req =
           Some (hmac_sha256_hex wenv (WEBHOOK_SECRET wenv) (toString_utf8 bytes))"
    and "hmac_sha256_hex wenv (WEBHOOK_SECRET wenv) (toString_utf8 bytes) \<noteq> []"
    and "JSON_parse wenv (toString_utf8 bytes) = Parsed wp"
    and "has_razorpay_event_id (db_schema wenv)"
    and "ledger_rows db (event_id_of now wp) \<noteq> []"
  shows "razorpay_webhook wenv d now db req = (Response 200 ''already_processed'', db)"
  using assms
  by (auto simp: razorpay_webhook_def verifyWebhookSignature_iff Let_def ledger_rows_def
        list_ex_iff filter_empty_conv)

lemma recorded_then_duplicate:
  "fst (razorpay_webhook wenv0 docker_fine 1000 db_pending (signed ''activated sub_1''))
     = Response 200 ''success''
   \<and> status_of (snd (razorpay_webhook wenv0 docker_fine 1000 db_pending (signed ''activated sub_1'')))
        ''s1'' = Some ''active''
   \<and> razorpay_webhook wenv0 docker_fine 2000
        (snd (razorpay_webhook wenv0 docker_fine 1000 db_pending (signed ''activated sub_1'')))
        (signed ''activated sub_1'')
     = (Response 200 ''already_processed'',
        snd (razorpay_webhook wenv0 docker_fine 1000 db_pending (signed ''activated sub_1'')))
   \<and> length (ledger_rows (deliver wenv0 docker_fine db_pending
        [(1000, signed ''activated sub_1''), (2000, signed ''activated sub_1'')]) ''sub_1'') = 1"
  by code_simp

text \<open>
  Claim C1, evaluated on the code. A correctly signed \<open>subscription.activated\<close> event whose
  subscription id matches no row is delivered twice. Both deliveries are answered
  \<open>success\<close>, the second is not recognised as a duplicate, and afterwards the ledger holds
  no row with the event's id.
\<close>

theorem unknown_subscription_not_recorded:
  "event_id_of 1000 (sub_event ''subscription.activated'' ''sub_unknown'') = ''sub_unknown''
   \<and> razorpay_webhook wenv0 docker_fine 1000 db_pending (signed ''activated sub_unknown'')
       = (Response 200 ''success'', db_pending)
   \<and> razorpay_webhook wenv0 docker_fine 2000 db_pending (signed ''activated sub_unknown'')
       = (Response 200 ''success'', db_pending)
   \<and> ledger_rows (deliver wenv0 docker_fine db_pending
        [(1000, signed ''activated sub_unknown''), (2000, signed ''activated sub_unknown'')])
        ''sub_unknown'' = []"
  by code_simp


end
